theory Spec2Isabelle
  imports Complex_Main "HOL-Library.Monad_Syntax" "HOL-Library.Sublist" "HOL-Library.Word"
begin

section \<open>Machine integers\<close>

text \<open>
  The dispatcher of \<^verbatim>\<open>mlx/backend/metal/scaled_dot_product_attention.cpp\<close> computes with
  the C++ types \<^verbatim>\<open>int\<close> (32 bits, signed), \<^verbatim>\<open>int64_t\<close>, \<^verbatim>\<open>int32_t\<close> and \<^verbatim>\<open>size_t\<close>. Values are
  HOL integers. Signed overflow and division by zero are undefined behaviour in C++: the
  model has no result there (\<open>None\<close>), as it has none where an exception is thrown or a
  reference is used after its target is gone. A conversion to a narrower or to an
  unsigned type is modular and is written out.
\<close>

definition int_result :: "int \<Rightarrow> int option" where
  "int_result x = (if - (2 ^ 31) \<le> x \<and> x < 2 ^ 31 then Some x else None)"

definition int64_result :: "int \<Rightarrow> int option" where
  "int64_result x = (if - (2 ^ 63) \<le> x \<and> x < 2 ^ 63 then Some x else None)"

definition int_add :: "int \<Rightarrow> int \<Rightarrow> int option" where
  "int_add a b = int_result (a + b)"

definition int_sub :: "int \<Rightarrow> int \<Rightarrow> int option" where
  "int_sub a b = int_result (a - b)"

definition int_mul :: "int \<Rightarrow> int \<Rightarrow> int option" where
  "int_mul a b = int_result (a * b)"

definition int64_mul :: "int \<Rightarrow> int \<Rightarrow> int option" where
  "int64_mul a b = int64_result (a * b)"

text \<open>The quotient of \<^verbatim>\<open>a / b\<close> is truncated towards zero; \<^verbatim>\<open>a % b\<close> is \<^verbatim>\<open>a - (a / b) * b\<close>.\<close>

definition int_div :: "int \<Rightarrow> int \<Rightarrow> int option" where
  "int_div a b = (if b = 0 then None else int_result (sgn a * sgn b * (\<bar>a\<bar> div \<bar>b\<bar>)))"

definition int_mod :: "int \<Rightarrow> int \<Rightarrow> int option" where
  "int_mod a b = do { q \<leftarrow> int_div a b; Some (a - q * b) }"

definition to_int32_t :: "int \<Rightarrow> int" where
  "to_int32_t x = (x + 2 ^ 31) mod 2 ^ 32 - 2 ^ 31"

definition to_size_t :: "int \<Rightarrow> nat" where
  "to_size_t x = nat (x mod 2 ^ 64)"

text \<open>\<^verbatim>\<open>std::to_string\<close> of an \<^verbatim>\<open>int\<close>, and \<^verbatim>\<open>operator<<\<close> of a stream on an \<^verbatim>\<open>int\<close>: decimal digits.\<close>

fun digits10 :: "nat \<Rightarrow> string" where
  "digits10 n =
     (if n < 10 then [''0123456789'' ! n]
      else digits10 (n div 10) @ [''0123456789'' ! (n mod 10)])"

declare digits10.simps [simp del]

definition to_string :: "int \<Rightarrow> string" where
  "to_string i = (if i < 0 then CHR ''-'' # digits10 (nat (- i)) else digits10 (nat i))"

text \<open>A \<^verbatim>\<open>float\<close> is only handed on to the kernel: it is its 32 bits.\<close>

type_synonym float = "32 word"

section \<open>Arrays\<close>

text \<open>
  The array type (\<^verbatim>\<open>mlx/array.h\<close>) is used, not defined, by the dispatcher. A tensor handle
  has a shape (ordered extents, each an \<^verbatim>\<open>int\<close>), strides (per dimension, \<^verbatim>\<open>int64_t\<close>), an
  element type, contiguity flags and a storage buffer.
\<close>

datatype Dtype =
  bool_ | uint8 | uint16 | uint32 | uint64 | int8 | int16 | int32 | int64
  | float16 | float32 | bfloat16 | complex64

datatype buffer = Buffer nat

record Flags =
  contiguous :: bool
  row_contiguous :: bool
  col_contiguous :: bool

record array =
  data :: "buffer option"
  shape :: "int list"
  strides :: "int list"
  dtype :: Dtype
  flags :: Flags
  data_size :: nat

definition ndim :: "array \<Rightarrow> nat" where
  "ndim a = length (shape a)"

text \<open>
  \<^verbatim>\<open>a.shape(dim)\<close> and \<^verbatim>\<open>a.strides(dim)\<close>: a negative \<^verbatim>\<open>dim\<close> counts from the end (the
  dispatcher reads the head dimension both as \<^verbatim>\<open>q.shape(-1)\<close> and as \<^verbatim>\<open>q.shape(3)\<close>); a
  dimension the array does not have gives no result.
\<close>

definition at_dim :: "int list \<Rightarrow> nat \<Rightarrow> int \<Rightarrow> int option" where
  "at_dim xs nd i =
     (let j = (if i < 0 then i + int nd else i)
      in if 0 \<le> j \<and> j < int (length xs) then Some (xs ! nat j) else None)"

definition shape_at :: "array \<Rightarrow> int \<Rightarrow> int option" where
  "shape_at a i = at_dim (shape a) (ndim a) i"

definition strides_at :: "array \<Rightarrow> int \<Rightarrow> int option" where
  "strides_at a i = at_dim (strides a) (ndim a) i"

text \<open>\<^verbatim>\<open>a.strides()[i]\<close> and \<^verbatim>\<open>a.shape()[i]\<close>: unchecked; out of range is undefined behaviour.\<close>

definition subscript :: "'a list \<Rightarrow> nat \<Rightarrow> 'a option" where
  "subscript xs i = (if i < length xs then Some (xs ! i) else None)"

text \<open>Modelled from the spec: the element count of a tensor, \<^verbatim>\<open>a.size()\<close> (a \<^verbatim>\<open>size_t\<close>).\<close>

definition array_size :: "array \<Rightarrow> nat" where
  "array_size a = to_size_t (prod_list (shape a))"

text \<open>
  Modelled from the spec: the strides of a row-major tensor of the given shape (the last
  dimension has stride 1, each other one the product of the extents after it).
\<close>

fun row_major_strides :: "int list \<Rightarrow> int list" where
  "row_major_strides [] = []"
| "row_major_strides (n # ns) = prod_list ns # row_major_strides ns"

text \<open>
  Modelled from the spec: \<^verbatim>\<open>array(shape, dtype, nullptr, {})\<close>, a tensor handle of the given
  shape and element type that has no storage yet.
\<close>

definition new_array :: "int list \<Rightarrow> Dtype \<Rightarrow> array" where
  "new_array s t =
     \<lparr>data = None, shape = s, strides = row_major_strides s, dtype = t,
      flags = \<lparr>contiguous = False, row_contiguous = False, col_contiguous = False\<rparr>,
      data_size = 0\<rparr>"

text \<open>
  Modelled from the spec: \<^verbatim>\<open>a.set_data(buffer)\<close> gives the tensor plain contiguous storage:
  row-major over its whole element count (and so column-major as well exactly when at
  most one extent exceeds 1).
\<close>

definition set_data :: "array \<Rightarrow> buffer \<Rightarrow> array" where
  "set_data a b =
     a\<lparr>data := Some b, data_size := array_size a,
       flags := \<lparr>contiguous = True, row_contiguous = True,
                 col_contiguous = (array_size a \<le> 1 \<or> int (array_size a) = Max (set (shape a)))\<rparr>\<rparr>"

text \<open>\<^verbatim>\<open>a.set_data(buffer, data_size, strides, flags)\<close>: storage with the given layout.\<close>

definition set_data_strided :: "array \<Rightarrow> buffer \<Rightarrow> nat \<Rightarrow> int list \<Rightarrow> Flags \<Rightarrow> array" where
  "set_data_strided a b n s f = a\<lparr>data := Some b, data_size := n, strides := s, flags := f\<rparr>"

text \<open>
  Modelled from the spec: \<^verbatim>\<open>a.copy_shared_buffer(other)\<close> reuses the storage of \<^verbatim>\<open>other\<close> for
  \<^verbatim>\<open>a\<close> (zero-copy), with the layout \<^verbatim>\<open>other\<close> has.
\<close>

definition copy_shared_buffer :: "array \<Rightarrow> array \<Rightarrow> array" where
  "copy_shared_buffer a other =
     a\<lparr>data := data other, data_size := data_size other, strides := strides other,
       flags := flags other\<rparr>"

section \<open>The device, the allocator and the command encoder\<close>

text \<open>
  What the dispatcher takes from its surroundings without defining it is a parameter of
  the model: the two functions that name an element type (\<^verbatim>\<open>type_to_name\<close>,
  \<^verbatim>\<open>get_type_string\<close>), the size of an element (for \<^verbatim>\<open>nbytes\<close>), whether the storage of
  an array may be reused (\<^verbatim>\<open>is_donatable\<close>, which depends on reference counts) and the
  architecture string of the device.
\<close>

record externals =
  type_to_name :: "Dtype \<Rightarrow> string"
  get_type_string :: "Dtype \<Rightarrow> string"
  size_of :: "Dtype \<Rightarrow> nat"
  is_donatable :: "array \<Rightarrow> bool"
  get_architecture :: string

definition nbytes :: "externals \<Rightarrow> array \<Rightarrow> nat" where
  "nbytes ext a = array_size a * size_of ext (dtype a)"

text \<open>
  The kernel parameter blocks of \<^verbatim>\<open>steel/attn/params.h\<close>, with the fields the dispatcher
  initialises, in its order.
\<close>

record AttnParams =
  B :: int
  H :: int
  D :: int
  qL :: int
  kL :: int
  gqa_factor :: int
  scale :: float
  NQ :: int
  NK :: int
  NQ_aligned :: int
  NK_aligned :: int
  qL_rem :: int
  kL_rem :: int
  qL_off :: int
  Q_strides :: "int list"
  K_strides :: "int list"
  V_strides :: "int list"
  O_strides :: "int list"

record AttnMaskParams =
  M_strides :: "int list"

text \<open>
  A function constant (a value, its Metal type, its index); a kernel as the device is
  asked for it, specialised (\<^verbatim>\<open>get_kernel(base_name, lib, hash_name, func_consts)\<close>) or by
  its name alone; the bytes handed to \<^verbatim>\<open>set_bytes\<close>, by the C++ type of the value; the
  sizes of a launch.
\<close>

datatype func_const = DataTypeBool bool nat

datatype kernel =
  get_kernel string string string "func_const list"
  | get_kernel_named string

datatype bytes =
  bytes_int int
  | bytes_int32_t int
  | bytes_size_t nat
  | bytes_float float
  | bytes_AttnParams AttnParams
  | bytes_AttnMaskParams AttnMaskParams

datatype MTL_Size = MTL_Size nat nat nat

datatype CopyType = General

text \<open>
  The calls on the compute encoder of the stream, in the order they are made. The copy
  primitive \<^verbatim>\<open>copy_gpu\<close> encodes its own launch on the same encoder: it is one entry.
\<close>

datatype command =
  set_compute_pipeline_state kernel
  | set_input_array array nat
  | set_output_array array nat
  | set_bytes bytes nat
  | dispatch_threadgroups MTL_Size MTL_Size
  | copy_gpu_launch array array CopyType

text \<open>
  The state a call works on: the allocator (the sizes asked of \<^verbatim>\<open>allocator::malloc\<close> so
  far; the n-th allocation is \<open>Buffer n\<close>), the encoder's commands and the temporaries
  registered with the device.
\<close>

record state =
  mallocs :: "nat list"
  encoder :: "command list"
  temporaries :: "array list"

definition malloc :: "nat \<Rightarrow> state \<Rightarrow> buffer \<times> state" where
  "malloc n st = (Buffer (length (mallocs st)), st\<lparr>mallocs := mallocs st @ [n]\<rparr>)"

definition encode :: "command list \<Rightarrow> state \<Rightarrow> state" where
  "encode cs st = st\<lparr>encoder := encoder st @ cs\<rparr>"

definition add_temporary :: "array \<Rightarrow> state \<Rightarrow> state" where
  "add_temporary a st = st\<lparr>temporaries := temporaries st @ [a]\<rparr>"

definition add_temporaries :: "array list \<Rightarrow> state \<Rightarrow> state" where
  "add_temporaries as st = st\<lparr>temporaries := temporaries st @ as\<rparr>"

text \<open>
  Modelled from the spec: \<^verbatim>\<open>copy_gpu(src, dst, CopyType::General, s)\<close>, the device-side copy
  primitive, materialises \<^verbatim>\<open>src\<close> into a freshly allocated, row-major buffer of \<^verbatim>\<open>dst\<close> and
  schedules the copy on the stream. It returns \<^verbatim>\<open>dst\<close> as it is after the call.
\<close>

definition copy_gpu :: "externals \<Rightarrow> array \<Rightarrow> array \<Rightarrow> CopyType \<Rightarrow> state \<Rightarrow> array \<times> state" where
  "copy_gpu ext src dst ctype st =
     (let (b, st1) = malloc (nbytes ext dst) st;
          dst1 = set_data (dst\<lparr>strides := row_major_strides (shape dst)\<rparr>) b
      in (dst1, encode [copy_gpu_launch src dst1 ctype] st1))"

section \<open>The three dispatch functions\<close>

text \<open>
  \<^verbatim>\<open>sdpa_full_self_attention_metal\<close> (lines 16 to 131): the tiled kernel. The locals of
  the source keep their names, in lower case where a field of the parameter block has
  the name (\<open>b\<close>, \<open>h\<close>, \<open>d\<close>, \<open>ql\<close>, \<open>kl\<close>, \<open>gqa\<close>, \<open>nq\<close>, \<open>nk\<close>); \<open>out\<close> is the source's \<^verbatim>\<open>o\<close>,
  \<open>sc\<close> its \<^verbatim>\<open>scale\<close>, \<open>msk\<close> its \<^verbatim>\<open>mask\<close> and \<open>do_causal0\<close> its \<^verbatim>\<open>do_causal_\<close>.
\<close>

definition sdpa_full_self_attention_metal ::
  "externals \<Rightarrow> array \<Rightarrow> array \<Rightarrow> array \<Rightarrow> float \<Rightarrow> array \<Rightarrow> bool \<Rightarrow> array option
     \<Rightarrow> state \<Rightarrow> state option" where
  "sdpa_full_self_attention_metal ext q k v sc out do_causal0 msk st = do {
     let wm = (4::int);
     let wn = (1::int);
     bd \<leftarrow> shape_at q (- 1);
     let bq = (32::int);
     let bk = (if bd < 128 then 32 else (16::int));
     b \<leftarrow> shape_at q 0;
     h \<leftarrow> shape_at q 1;
     d \<leftarrow> shape_at q 3;
     q1 \<leftarrow> shape_at q 1;
     k1 \<leftarrow> shape_at k 1;
     gqa \<leftarrow> int_div q1 k1;
     ql \<leftarrow> shape_at q 2;
     kl \<leftarrow> shape_at k 2;
     rq \<leftarrow> int_mod ql bq;
     rk \<leftarrow> int_mod kl bk;
     let align_Q = (rq = 0);
     let align_K = (rk = 0);
     let has_mask = (msk \<noteq> None);
     let do_causal = do_causal0;
     let func_consts =
       [DataTypeBool align_Q 200, DataTypeBool align_K 201,
        DataTypeBool has_mask 300, DataTypeBool do_causal 301];
     let base_name =
       ''steel_attention_'' @ type_to_name ext (dtype q)
       @ ''_bq'' @ to_string bq @ ''_bk'' @ to_string bk @ ''_bd'' @ to_string bd
       @ ''_wm'' @ to_string wm @ ''_wn'' @ to_string wn
       @ ''_mask'' @ type_to_name ext (dtype (case msk of Some m \<Rightarrow> m | None \<Rightarrow> q));
     let hash_name =
       base_name
       @ ''_align_Q_'' @ [if align_Q then CHR ''t'' else CHR ''n'']
       @ ''_align_K_'' @ [if align_K then CHR ''t'' else CHR ''n'']
       @ ''_has_mask_'' @ [if has_mask then CHR ''t'' else CHR ''n'']
       @ ''_do_causal_'' @ [if do_causal then CHR ''t'' else CHR ''n''];
     let st1 =
       encode [set_compute_pipeline_state (get_kernel base_name ''mlx'' hash_name func_consts)] st;
     nq0 \<leftarrow> int_add ql bq;
     nq1 \<leftarrow> int_sub nq0 1;
     nq \<leftarrow> int_div nq1 bq;
     nk0 \<leftarrow> int_add kl bk;
     nk1 \<leftarrow> int_sub nk0 1;
     nk \<leftarrow> int_div nk1 bk;
     nq_aligned \<leftarrow> int_div ql bq;
     nk_aligned \<leftarrow> int_div kl bk;
     qm \<leftarrow> int_mul nq_aligned bq;
     ql_rem \<leftarrow> int_sub ql qm;
     km \<leftarrow> int_mul nk_aligned bk;
     kl_rem \<leftarrow> int_sub kl km;
     ql_off \<leftarrow> int_sub kl ql;
     qs0 \<leftarrow> strides_at q 0;
     qs1 \<leftarrow> strides_at q 1;
     qs2 \<leftarrow> strides_at q 2;
     ks0 \<leftarrow> strides_at k 0;
     ks1 \<leftarrow> strides_at k 1;
     ks2 \<leftarrow> strides_at k 2;
     vs0 \<leftarrow> strides_at v 0;
     vs1 \<leftarrow> strides_at v 1;
     vs2 \<leftarrow> strides_at v 2;
     os0 \<leftarrow> strides_at out 0;
     os1 \<leftarrow> strides_at out 1;
     os2 \<leftarrow> strides_at out 2;
     let params =
       \<lparr>B = b, H = h, D = d, qL = ql, kL = kl, gqa_factor = gqa, scale = sc,
        NQ = nq, NK = nk, NQ_aligned = nq_aligned, NK_aligned = nk_aligned,
        qL_rem = ql_rem, kL_rem = kl_rem, qL_off = ql_off,
        Q_strides = [qs0, qs1, qs2], K_strides = [ks0, ks1, ks2],
        V_strides = [vs0, vs1, vs2], O_strides = [os0, os1, os2]\<rparr>;
     let st2 =
       encode [set_input_array q 0, set_input_array k 1, set_input_array v 2,
               set_output_array out 3, set_bytes (bytes_AttnParams params) 4] st1;
     st3 \<leftarrow>
       (case msk of
          Some m \<Rightarrow> do {
            ms0 \<leftarrow> strides_at m 0;
            ms1 \<leftarrow> strides_at m 1;
            ms2 \<leftarrow> strides_at m 2;
            let mask_params = \<lparr>M_strides = [ms0, ms1, ms2]\<rparr>;
            Some (encode [set_bytes (bytes_AttnMaskParams mask_params) 5,
                          set_input_array m 6] st2)
          }
        | None \<Rightarrow> Some st2);
     let grid_dims = MTL_Size (to_size_t nq) (to_size_t h) (to_size_t b);
     let group_dims = MTL_Size 32 (to_size_t wm) (to_size_t wn);
     Some (encode [dispatch_threadgroups grid_dims group_dims] st3)
   }"

text \<open>
  The stride of a mask axis as both vector kernels get it (lines 195 to 199 and 291 to
  295, the same text): \<^verbatim>\<open>nd >= i && m.shape(-i) > 1 ? m.strides()[nd - i] : 0\<close>, stored in
  an \<^verbatim>\<open>int32_t\<close>; \<open>i\<close> is 1 for the key axis, 2 for the query axis, 3 for the head axis.
\<close>

definition mask_stride :: "array \<Rightarrow> nat \<Rightarrow> int option" where
  "mask_stride m i =
     (let nd = ndim m in
      if nd \<ge> i then do {
        e \<leftarrow> shape_at m (- int i);
        if e > 1 then do { s \<leftarrow> subscript (strides m) (nd - i); Some (to_int32_t s) }
        else Some 0
      } else Some 0)"

text \<open>\<^verbatim>\<open>sdpa_vector\<close> (lines 133 to 207): the single-pass vector kernel.\<close>

definition sdpa_vector ::
  "externals \<Rightarrow> array \<Rightarrow> array \<Rightarrow> array \<Rightarrow> array \<Rightarrow> float \<Rightarrow> array option
     \<Rightarrow> state \<Rightarrow> state option" where
  "sdpa_vector ext q k v out sc msk st = do {
     dq \<leftarrow> shape_at q (- 1);
     dv \<leftarrow> shape_at v (- 1);
     let kname =
       ''sdpa_vector_'' @ get_type_string ext (dtype q)
       @ ''_'' @ to_string dq @ ''_'' @ to_string dv;
     q1 \<leftarrow> shape_at q 1;
     k1 \<leftarrow> shape_at k 1;
     gqa \<leftarrow> int_div q1 k1;
     n \<leftarrow> shape_at k 2;
     q0 \<leftarrow> shape_at q 0;
     b \<leftarrow> int_mul q0 q1;
     k_head_stride \<leftarrow> subscript (strides k) 1;
     k_seq_stride \<leftarrow> subscript (strides k) 2;
     v_head_stride \<leftarrow> subscript (strides v) 1;
     v_seq_stride \<leftarrow> subscript (strides v) 2;
     let group_dims = MTL_Size 1024 1 1;
     q2 \<leftarrow> shape_at q 2;
     let grid_dims = MTL_Size (to_size_t b) (to_size_t q2) 1;
     let has_mask = (msk \<noteq> None);
     let query_transposed = (\<not> row_contiguous (flags q));
     let func_consts = [DataTypeBool has_mask 20, DataTypeBool query_transposed 21];
     let hash_name =
       kname @ (if has_mask then ''_mask'' else ''_nomask'')
       @ (if query_transposed then ''_qt'' else ''_qnt'');
     let st1 =
       encode [set_compute_pipeline_state (get_kernel kname ''mlx'' hash_name func_consts),
               set_input_array q 0, set_input_array k 1, set_input_array v 2,
               set_output_array out 3,
               set_bytes (bytes_int gqa) 4, set_bytes (bytes_int n) 5,
               set_bytes (bytes_size_t (to_size_t k_head_stride)) 6,
               set_bytes (bytes_size_t (to_size_t k_seq_stride)) 7,
               set_bytes (bytes_size_t (to_size_t v_head_stride)) 8,
               set_bytes (bytes_size_t (to_size_t v_seq_stride)) 9,
               set_bytes (bytes_float sc) 10] st;
     st2 \<leftarrow>
       (case msk of
          Some m \<Rightarrow> do {
            kv_seq_stride \<leftarrow> mask_stride m 1;
            q_seq_stride \<leftarrow> mask_stride m 2;
            head_stride \<leftarrow> mask_stride m 3;
            Some (encode [set_input_array m 11,
                          set_bytes (bytes_int32_t kv_seq_stride) 12,
                          set_bytes (bytes_int32_t q_seq_stride) 13,
                          set_bytes (bytes_int32_t head_stride) 14] st1)
          }
        | None \<Rightarrow> Some st1);
     Some (encode [dispatch_threadgroups grid_dims group_dims] st2)
   }"

text \<open>
  \<^verbatim>\<open>sdpa_vector_2pass\<close> (lines 209 to 325): the partial reduction over 32 blocks of keys,
  then the final pass over the three intermediates.
\<close>

definition sdpa_vector_2pass ::
  "externals \<Rightarrow> array \<Rightarrow> array \<Rightarrow> array \<Rightarrow> array \<Rightarrow> float \<Rightarrow> array option
     \<Rightarrow> state \<Rightarrow> state option" where
  "sdpa_vector_2pass ext q k v out sc msk st = do {
     dq \<leftarrow> shape_at q (- 1);
     dv \<leftarrow> shape_at v (- 1);
     let kname =
       ''sdpa_vector_2pass_1_'' @ get_type_string ext (dtype q)
       @ ''_'' @ to_string dq @ ''_'' @ to_string dv;
     q1 \<leftarrow> shape_at q 1;
     k1 \<leftarrow> shape_at k 1;
     gqa \<leftarrow> int_div q1 k1;
     n \<leftarrow> shape_at k 2;
     let blocks = (32::int);
     q0 \<leftarrow> shape_at q 0;
     b \<leftarrow> int_mul q0 q1;
     k_head_stride \<leftarrow> subscript (strides k) 1;
     k_seq_stride \<leftarrow> subscript (strides k) 2;
     v_head_stride \<leftarrow> subscript (strides v) 1;
     v_seq_stride \<leftarrow> subscript (strides v) 2;
     let group_dims = MTL_Size (8 * 32) 1 1;
     q2 \<leftarrow> shape_at q 2;
     let grid_dims = MTL_Size (to_size_t b) (to_size_t q2) (to_size_t blocks);
     intermediate_shape \<leftarrow>
       (if shape out = [] then None
        else Some (butlast (shape out) @ [blocks, last (shape out)]));
     let intermediate0 = new_array intermediate_shape float32;
     let intermediate_shape1 = butlast intermediate_shape;
     let sums0 = new_array intermediate_shape1 float32;
     let maxs0 = new_array intermediate_shape1 float32;
     let (b1, sta) = malloc (nbytes ext intermediate0) st;
     let intermediate = set_data intermediate0 b1;
     let (b2, stb) = malloc (nbytes ext sums0) sta;
     let sums' = set_data sums0 b2;
     let (b3, stc) = malloc (nbytes ext maxs0) stb;
     let maxs' = set_data maxs0 b3;
     let st0 = add_temporary maxs' (add_temporary sums' (add_temporary intermediate stc));
     let has_mask = (msk \<noteq> None);
     let query_transposed = (\<not> row_contiguous (flags q));
     let func_consts = [DataTypeBool has_mask 20, DataTypeBool query_transposed 21];
     let hash_name =
       kname @ (if has_mask then ''_mask'' else ''_nomask'')
       @ (if query_transposed then ''_qt'' else ''_qnt'');
     let st1 =
       encode [set_compute_pipeline_state (get_kernel kname ''mlx'' hash_name func_consts),
               set_input_array q 0, set_input_array k 1, set_input_array v 2,
               set_output_array intermediate 3, set_output_array sums' 4,
               set_output_array maxs' 5,
               set_bytes (bytes_int gqa) 6, set_bytes (bytes_int n) 7,
               set_bytes (bytes_size_t (to_size_t k_head_stride)) 8,
               set_bytes (bytes_size_t (to_size_t k_seq_stride)) 9,
               set_bytes (bytes_size_t (to_size_t v_head_stride)) 10,
               set_bytes (bytes_size_t (to_size_t v_seq_stride)) 11,
               set_bytes (bytes_float sc) 12] st0;
     st2 \<leftarrow>
       (case msk of
          Some m \<Rightarrow> do {
            kv_seq_stride \<leftarrow> mask_stride m 1;
            q_seq_stride \<leftarrow> mask_stride m 2;
            head_stride \<leftarrow> mask_stride m 3;
            Some (encode [set_input_array m 13,
                          set_bytes (bytes_int32_t kv_seq_stride) 14,
                          set_bytes (bytes_int32_t q_seq_stride) 15,
                          set_bytes (bytes_int32_t head_stride) 16] st1)
          }
        | None \<Rightarrow> Some st1);
     let st3 = encode [dispatch_threadgroups grid_dims group_dims] st2;
     dv2 \<leftarrow> shape_at v (- 1);
     let kname2 =
       ''sdpa_vector_2pass_2_'' @ get_type_string ext (dtype q) @ ''_'' @ to_string dv2;
     let group_dims2 = MTL_Size 1024 1 1;
     q2b \<leftarrow> shape_at q 2;
     let grid_dims2 = MTL_Size (to_size_t b) (to_size_t q2b) 1;
     Some (encode [set_compute_pipeline_state (get_kernel_named kname2),
                   set_input_array intermediate 0, set_input_array sums' 1,
                   set_input_array maxs' 2, set_output_array out 3,
                   dispatch_threadgroups grid_dims2 group_dims2] st3)
   }"

section \<open>The dispatcher\<close>

text \<open>
  \<^verbatim>\<open>eval_gpu\<close> keeps the copies it makes in a \<^verbatim>\<open>std::vector<array>\<close> for which it reserves
  room for three elements (line 344), and \<^verbatim>\<open>copy_unless\<close> returns a reference: to its
  argument, or to the last element of that vector. A \<^verbatim>\<open>push_back\<close> that finds the vector
  full moves the elements to new storage, and every reference to an element taken
  before is left without a target. The vector is its elements, its capacity and the
  number of leading elements whose references were invalidated that way (\<open>stale\<close>); the
  capacity after \<^verbatim>\<open>reserve(n)\<close> is \<open>n\<close> and growth doubles it, as in libc++.
\<close>

record array_vector =
  elems :: "array list"
  capacity :: nat
  stale :: nat

definition reserve :: "nat \<Rightarrow> array_vector \<Rightarrow> array_vector" where
  "reserve n cv =
     (if capacity cv < n then cv\<lparr>capacity := n, stale := length (elems cv)\<rparr> else cv)"

definition push_back :: "array \<Rightarrow> array_vector \<Rightarrow> array_vector" where
  "push_back a cv =
     (if length (elems cv) < capacity cv then cv\<lparr>elems := elems cv @ [a]\<rparr>
      else cv\<lparr>elems := elems cv @ [a],
              capacity := max (2 * capacity cv) (length (elems cv) + 1),
              stale := length (elems cv)\<rparr>)"

datatype array_ref = ref_to array | ref_to_copy nat

definition deref :: "array_vector \<Rightarrow> array_ref \<Rightarrow> array option" where
  "deref cv r =
     (case r of
        ref_to a \<Rightarrow> Some a
      | ref_to_copy i \<Rightarrow>
          if stale cv \<le> i \<and> i < length (elems cv) then Some (elems cv ! i) else None)"

text \<open>The lambda \<^verbatim>\<open>copy_unless\<close> (lines 345 to 355), with the vector and the state it captures.\<close>

definition copy_unless ::
  "externals \<Rightarrow> (array \<Rightarrow> bool option) \<Rightarrow> array \<Rightarrow> array_vector \<Rightarrow> state
     \<Rightarrow> (array_ref \<times> array_vector \<times> state) option" where
  "copy_unless ext predicate arr copies st = do {
     holds \<leftarrow> predicate arr;
     if \<not> holds then do {
       let arr_copy0 = new_array (shape arr) (dtype arr);
       let (arr_copy, st1) = copy_gpu ext arr arr_copy0 General st;
       let copies1 = push_back arr_copy copies;
       Some (ref_to_copy (length (elems copies1) - 1), copies1, st1)
     } else Some (ref_to arr, copies, st)
   }"

text \<open>
  The two layout predicates (lines 359 to 372). \<^verbatim>\<open>&&\<close> evaluates its right operand only
  when the left one holds.
\<close>

definition is_contiguous_or_head_seq_transposed :: "array \<Rightarrow> bool option" where
  "is_contiguous_or_head_seq_transposed arr =
     (if row_contiguous (flags arr) then Some True
      else do {
        s3 \<leftarrow> subscript (strides arr) 3;
        if s3 \<noteq> 1 then Some False
        else do {
          s2 \<leftarrow> subscript (strides arr) 2;
          n3 \<leftarrow> subscript (shape arr) 3;
          n1 \<leftarrow> subscript (shape arr) 1;
          n31 \<leftarrow> int_mul n3 n1;
          if s2 \<noteq> n31 then Some False
          else do {
            s1 \<leftarrow> subscript (strides arr) 1;
            if s1 \<noteq> n3 then Some False
            else do {
              s0 \<leftarrow> subscript (strides arr) 0;
              n2 \<leftarrow> subscript (shape arr) 2;
              s2n2 \<leftarrow> int64_mul s2 n2;
              Some (s0 = s2n2)
            }
          }
        }
      })"

definition is_matrix_contiguous :: "array \<Rightarrow> bool option" where
  "is_matrix_contiguous arr = do { s \<leftarrow> strides_at arr (- 1); Some (s = 1) }"

text \<open>
  The vector branch of \<^verbatim>\<open>eval_gpu\<close> (lines 376 to 410) in three parts: the storage of
  the output (\<open>vector_output\<close>, lines 381 to 396: the query is donated if possible), the
  choice between the two vector kernels (\<open>use_2pass\<close>, the condition of lines 404 to 406)
  and the branch itself (\<open>eval_gpu_vector\<close>), which returns the output array, the vector
  of copies and the state.
\<close>

definition vector_output ::
  "externals \<Rightarrow> array \<Rightarrow> array \<Rightarrow> state \<Rightarrow> (array \<times> state) option" where
  "vector_output ext q out st = do {
     donate \<leftarrow>
       (if is_donatable ext q then do {
          q2 \<leftarrow> shape_at q 2;
          if q2 = 1 \<or> \<not> row_contiguous (flags q) then Some (array_size q = array_size out)
          else Some False
        } else Some False);
     if donate then Some (copy_shared_buffer out q, st)
     else do {
       o2 \<leftarrow> shape_at out 2;
       if o2 = 1 then
         (let (b, st1) = malloc (nbytes ext out) st in Some (set_data out b, st1))
       else do {
         let strides0 = strides out;
         o1 \<leftarrow> shape_at out 1;
         o3 \<leftarrow> shape_at out 3;
         o13 \<leftarrow> int_mul o1 o3;
         strides1 \<leftarrow> (if 2 < length strides0 then Some (strides0[2 := o13]) else None);
         strides2 \<leftarrow> (if 1 < length strides1 then Some (strides1[1 := o3]) else None);
         let flags0 = flags q;
         q1 \<leftarrow> shape_at q 1;
         let flags1 = flags0\<lparr>row_contiguous := (q1 = 1)\<rparr>;
         let (b, st1) = malloc (nbytes ext out) st;
         Some (set_data_strided out b (array_size out) strides2 flags1, st1)
       }
     }
   }"

definition use_2pass :: "externals \<Rightarrow> array \<Rightarrow> array \<Rightarrow> bool option" where
  "use_2pass ext q k = do {
     devc \<leftarrow> (if get_architecture ext = [] then None else Some (last (get_architecture ext)));
     large \<leftarrow>
       (if devc = CHR ''d'' then do { k2 \<leftarrow> shape_at k 2; Some (k2 \<ge> 1024) } else Some False);
     if large then Some True
     else do {
       k1 \<leftarrow> shape_at k 1;
       q1 \<leftarrow> shape_at q 1;
       if k1 < q1 then do { k2 \<leftarrow> shape_at k 2; Some (k2 \<ge> 4096) } else Some False
     }
   }"

definition eval_gpu_vector ::
  "externals \<Rightarrow> array list \<Rightarrow> array \<Rightarrow> float \<Rightarrow> array_vector \<Rightarrow> state
     \<Rightarrow> (array \<times> array_vector \<times> state) option" where
  "eval_gpu_vector ext inputs out scale0 copies st = do {
     (qr, copies1, st1) \<leftarrow>
       copy_unless ext is_contiguous_or_head_seq_transposed (inputs ! 0) copies st;
     (kr, copies2, st2) \<leftarrow> copy_unless ext is_matrix_contiguous (inputs ! 1) copies1 st1;
     (vr, copies3, st3) \<leftarrow> copy_unless ext is_matrix_contiguous (inputs ! 2) copies2 st2;
     q \<leftarrow> deref copies3 qr;
     k \<leftarrow> deref copies3 kr;
     v \<leftarrow> deref copies3 vr;
     (out1, st4) \<leftarrow> vector_output ext q out st3;
     let msk = (if length inputs > 3 then Some (inputs ! 3) else None);
     two_pass \<leftarrow> use_2pass ext q k;
     st5 \<leftarrow>
       (if two_pass then sdpa_vector_2pass ext q k v out1 scale0 msk st4
        else sdpa_vector ext q k v out1 scale0 msk st4);
     Some (out1, copies3, st5)
   }"

text \<open>
  The full attention branch (lines 415 to 441): the output always gets fresh storage
  with the strides of a tensor whose head and sequence axes are interchanged.
\<close>

definition eval_gpu_full ::
  "externals \<Rightarrow> array list \<Rightarrow> array \<Rightarrow> float \<Rightarrow> bool \<Rightarrow> array_vector \<Rightarrow> state
     \<Rightarrow> (array \<times> array_vector \<times> state) option" where
  "eval_gpu_full ext inputs out scale0 do_causal0 copies st = do {
     (qr, copies1, st1) \<leftarrow> copy_unless ext is_matrix_contiguous (inputs ! 0) copies st;
     (kr, copies2, st2) \<leftarrow> copy_unless ext is_matrix_contiguous (inputs ! 1) copies1 st1;
     (vr, copies3, st3) \<leftarrow> copy_unless ext is_matrix_contiguous (inputs ! 2) copies2 st2;
     let str_oD = (1::int);
     str_oH \<leftarrow> shape_at out 3;
     o1 \<leftarrow> shape_at out 1;
     str_oL \<leftarrow> int64_mul o1 str_oH;
     o2 \<leftarrow> shape_at out 2;
     str_oB \<leftarrow> int64_mul o2 str_oL;
     o0 \<leftarrow> shape_at out 0;
     size0 \<leftarrow> int64_mul o0 str_oB;
     let data_size0 = to_size_t size0;
     let flags0 = \<lparr>contiguous = True, row_contiguous = False, col_contiguous = False\<rparr>;
     let (b, st4) = malloc (nbytes ext out) st3;
     let out1 = set_data_strided out b data_size0 [str_oB, str_oH, str_oL, str_oD] flags0;
     (msk, copies4, st5) \<leftarrow>
       (if length inputs > 3 then do {
          (mr, copies4, st5) \<leftarrow> copy_unless ext is_matrix_contiguous (inputs ! 3) copies3 st4;
          m \<leftarrow> deref copies4 mr;
          Some (Some m, copies4, st5)
        } else Some (None, copies3, st4));
     q \<leftarrow> deref copies4 qr;
     k \<leftarrow> deref copies4 kr;
     v \<leftarrow> deref copies4 vr;
     st6 \<leftarrow> sdpa_full_self_attention_metal ext q k v scale0 out1 do_causal0 msk st5;
     Some (out1, copies4, st6)
   }"

text \<open>
  \<^verbatim>\<open>ScaledDotProductAttention::eval_gpu\<close> (lines 329 to 445). \<open>scale0\<close> and \<open>do_causal0\<close> are
  the members \<^verbatim>\<open>scale_\<close> and \<^verbatim>\<open>do_causal_\<close> of the primitive. The result is the output array
  and the state after the call.
\<close>

definition eval_gpu ::
  "externals \<Rightarrow> array list \<Rightarrow> array \<Rightarrow> float \<Rightarrow> bool \<Rightarrow> state \<Rightarrow> (array \<times> state) option" where
  "eval_gpu ext inputs out scale0 do_causal0 st = do {
     q_pre \<leftarrow> subscript inputs 0;
     k_pre \<leftarrow> subscript inputs 1;
     v_pre \<leftarrow> subscript inputs 2;
     let copies = reserve 3 \<lparr>elems = [], capacity = 0, stale = 0\<rparr>;
     lq \<leftarrow> shape_at q_pre 2;
     (out1, copies1, st1) \<leftarrow>
       (if lq \<le> 8 then eval_gpu_vector ext inputs out scale0 copies st
        else eval_gpu_full ext inputs out scale0 do_causal0 copies st);
     Some (out1, add_temporaries (elems copies1) st1)
   }"

section \<open>What a call issued\<close>

text \<open>
  The commands a call added to the encoder, the kernels among them, and the first
  array or value bound to a slot.
\<close>

definition issued :: "state \<Rightarrow> state \<Rightarrow> command list" where
  "issued st st' = drop (length (encoder st)) (encoder st')"

fun kernels :: "command list \<Rightarrow> kernel list" where
  "kernels [] = []"
| "kernels (set_compute_pipeline_state kn # cs) = kn # kernels cs"
| "kernels (c # cs) = kernels cs"

fun kernel_name :: "kernel \<Rightarrow> string" where
  "kernel_name (get_kernel base_name lib hash_name func_consts) = base_name"
| "kernel_name (get_kernel_named name) = name"

fun bound_input :: "nat \<Rightarrow> command list \<Rightarrow> array option" where
  "bound_input i [] = None"
| "bound_input i (set_input_array a j # cs) = (if i = j then Some a else bound_input i cs)"
| "bound_input i (c # cs) = bound_input i cs"

fun bound_bytes :: "nat \<Rightarrow> command list \<Rightarrow> bytes option" where
  "bound_bytes i [] = None"
| "bound_bytes i (set_bytes x j # cs) = (if i = j then Some x else bound_bytes i cs)"
| "bound_bytes i (c # cs) = bound_bytes i cs"

text \<open>
  Which path a call took, read off the kernels it set: the single-pass vector kernel
  alone, the two passes of the two-pass vector path (the second fetched by its name
  alone), or the tiled attention kernel alone.
\<close>

definition single_pass :: "command list \<Rightarrow> bool" where
  "single_pass cs =
     (case kernels cs of
        [get_kernel n l h f] \<Rightarrow> prefix ''sdpa_vector_'' n
      | _ \<Rightarrow> False)"

definition two_pass :: "command list \<Rightarrow> bool" where
  "two_pass cs =
     (case kernels cs of
        [get_kernel n l h f, get_kernel_named n2] \<Rightarrow>
          prefix ''sdpa_vector_2pass_1_'' n \<and> prefix ''sdpa_vector_2pass_2_'' n2
      | _ \<Rightarrow> False)"

definition vector_mode :: "command list \<Rightarrow> bool" where
  "vector_mode cs = (single_pass cs \<or> two_pass cs)"

definition full_mode :: "command list \<Rightarrow> bool" where
  "full_mode cs =
     (case kernels cs of
        [get_kernel n l h f] \<Rightarrow> prefix ''steel_attention_'' n
      | _ \<Rightarrow> False)"

text \<open>
  The device class of the two-pass heuristic (line 404): the architecture string ends
  in the letter d.
\<close>

definition large_device :: "externals \<Rightarrow> bool" where
  "large_device ext = (get_architecture ext \<noteq> [] \<and> last (get_architecture ext) = CHR ''d'')"

text \<open>
  The copy \<^verbatim>\<open>copy_unless\<close> makes of an array in a given state, and what it means for \<open>dst\<close> to
  be a freshly materialised row-major copy of \<open>src\<close> among the commands \<open>cs\<close> of a call
  that started in state \<open>st\<close>: the shape and the element type of \<open>src\<close>, row-major
  strides, a buffer allocated during the call, and the copy scheduled.
\<close>

definition copied :: "externals \<Rightarrow> array \<Rightarrow> state \<Rightarrow> array" where
  "copied ext arr st = fst (copy_gpu ext arr (new_array (shape arr) (dtype arr)) General st)"

definition copied_state :: "externals \<Rightarrow> array \<Rightarrow> state \<Rightarrow> state" where
  "copied_state ext arr st = snd (copy_gpu ext arr (new_array (shape arr) (dtype arr)) General st)"

text \<open>
  What \<^verbatim>\<open>copy_unless\<close> hands on when its predicate has the value \<open>h\<close> on the array, and the
  state it leaves.
\<close>

definition passed :: "externals \<Rightarrow> bool \<Rightarrow> array \<Rightarrow> state \<Rightarrow> array" where
  "passed ext h arr st = (if h then arr else copied ext arr st)"

definition passed_state :: "externals \<Rightarrow> bool \<Rightarrow> array \<Rightarrow> state \<Rightarrow> state" where
  "passed_state ext h arr st = (if h then st else copied_state ext arr st)"

definition fresh_row_major_copy :: "state \<Rightarrow> command list \<Rightarrow> array \<Rightarrow> array \<Rightarrow> bool" where
  "fresh_row_major_copy st cs src dst =
     (shape dst = shape src \<and> dtype dst = dtype src
      \<and> strides dst = row_major_strides (shape src) \<and> row_contiguous (flags dst)
      \<and> (case data dst of Some (Buffer n) \<Rightarrow> length (mallocs st) \<le> n | None \<Rightarrow> False)
      \<and> copy_gpu_launch src dst General \<in> set cs)"

text \<open>
  The stride the specification gives a kernel for the i-th axis of a mask counted from
  the end (1 the key axis, 2 the query axis, 3 the head axis): the stride of that axis if
  the mask has the axis and its extent exceeds 1, and 0 otherwise.
\<close>

definition broadcast_stride :: "array \<Rightarrow> nat \<Rightarrow> int" where
  "broadcast_stride m i =
     (if i \<le> ndim m \<and> 1 < shape m ! (ndim m - i) then strides m ! (ndim m - i) else 0)"


section \<open>Concrete calls\<close>

text \<open>
  Surroundings, tensors and states for the concrete calls below: a device of a given
  architecture on which every element type is named \<^verbatim>\<open>float32\<close> and takes four bytes; a
  row-major \<^verbatim>\<open>float32\<close> tensor of a given shape in the n-th buffer; a tensor with given
  strides; a state with n earlier allocations and nothing encoded.
\<close>

definition device :: "string \<Rightarrow> (array \<Rightarrow> bool) \<Rightarrow> externals" where
  "device arch donatable =
     \<lparr>type_to_name = (\<lambda>t. ''float32''), get_type_string = (\<lambda>t. ''float''),
      size_of = (\<lambda>t. 4), is_donatable = donatable, get_architecture = arch\<rparr>"

definition tensor :: "int list \<Rightarrow> nat \<Rightarrow> array" where
  "tensor s n = set_data (new_array s float32) (Buffer n)"

definition strided_tensor :: "int list \<Rightarrow> int list \<Rightarrow> nat \<Rightarrow> array" where
  "strided_tensor s ss n =
     set_data_strided (new_array s float32) (Buffer n) (array_size (new_array s float32)) ss
       \<lparr>contiguous = False, row_contiguous = False, col_contiguous = False\<rparr>"

definition idle :: "nat \<Rightarrow> state" where
  "idle n = \<lparr>mallocs = replicate n 0, encoder = [], temporaries = []\<rparr>"

section \<open>Arithmetic and access\<close>

lemma int_add_Some: "int_add a b = Some c \<Longrightarrow> c = a + b"
  by (simp add: int_add_def int_result_def split: if_splits)

lemma int_sub_Some: "int_sub a b = Some c \<Longrightarrow> c = a - b"
  by (simp add: int_sub_def int_result_def split: if_splits)

lemma int_mul_Some: "int_mul a b = Some c \<Longrightarrow> c = a * b"
  by (simp add: int_mul_def int_result_def split: if_splits)

lemma int_div_Some_nonneg: "int_div a b = Some c \<Longrightarrow> 0 \<le> a \<Longrightarrow> 0 < b \<Longrightarrow> c = a div b"
  by (auto simp: int_div_def int_result_def sgn_if split: if_splits)

lemma at_dim_Some_nat: "at_dim xs nd (int n) = Some x \<Longrightarrow> x = xs ! n \<and> n < length xs"
  by (auto simp: at_dim_def Let_def split: if_splits)

lemma shape_at_Some: "shape_at a (int n) = Some x \<Longrightarrow> x = shape a ! n \<and> n < length (shape a)"
  unfolding shape_at_def by (rule at_dim_Some_nat)

lemma shape_at_numeral:
  "shape_at a (numeral n) = Some x \<Longrightarrow> x = shape a ! numeral n \<and> numeral n < length (shape a)"
  using shape_at_Some [of a "numeral n" x] by simp

lemma shape_at_0: "shape_at a 0 = Some x \<Longrightarrow> x = shape a ! 0 \<and> 0 < length (shape a)"
  using shape_at_Some [of a 0 x] by simp

lemma shape_at_1: "shape_at a 1 = Some x \<Longrightarrow> x = shape a ! 1 \<and> 1 < length (shape a)"
  using shape_at_Some [of a 1 x] by simp

lemma strides_at_Some: "strides_at a (int n) = Some x \<Longrightarrow> x = strides a ! n \<and> n < length (strides a)"
  unfolding strides_at_def by (rule at_dim_Some_nat)

lemma strides_at_numeral:
  "strides_at a (numeral n) = Some x \<Longrightarrow> x = strides a ! numeral n \<and> numeral n < length (strides a)"
  using strides_at_Some [of a "numeral n" x] by simp

lemma strides_at_0: "strides_at a 0 = Some x \<Longrightarrow> x = strides a ! 0 \<and> 0 < length (strides a)"
  using strides_at_Some [of a 0 x] by simp

lemma strides_at_1: "strides_at a 1 = Some x \<Longrightarrow> x = strides a ! 1 \<and> 1 < length (strides a)"
  using strides_at_Some [of a 1 x] by simp

lemma shape_at_last: "shape_at a (- 1) = Some x \<Longrightarrow> x = last (shape a)"
  by (auto simp: shape_at_def at_dim_def ndim_def Let_def last_conv_nth nat_diff_distrib'
      split: if_splits)

lemma subscript_Some: "subscript xs i = Some x \<Longrightarrow> x = xs ! i \<and> i < length xs"
  by (simp add: subscript_def split: if_splits)

section \<open>State\<close>

lemma issued_append: "encoder st' = encoder st @ cs \<Longrightarrow> issued st st' = cs"
  by (simp add: issued_def)

lemma encoder_encode [simp]: "encoder (encode cs st) = encoder st @ cs"
  by (simp add: encode_def)

lemma mallocs_encode [simp]: "mallocs (encode cs st) = mallocs st"
  by (simp add: encode_def)

lemma temporaries_encode [simp]: "temporaries (encode cs st) = temporaries st"
  by (simp add: encode_def)

lemma encoder_add_temporary [simp]: "encoder (add_temporary a st) = encoder st"
  by (simp add: add_temporary_def)

lemma mallocs_add_temporary [simp]: "mallocs (add_temporary a st) = mallocs st"
  by (simp add: add_temporary_def)

lemma encoder_add_temporaries [simp]: "encoder (add_temporaries as st) = encoder st"
  by (simp add: add_temporaries_def)

lemma mallocs_add_temporaries [simp]: "mallocs (add_temporaries as st) = mallocs st"
  by (simp add: add_temporaries_def)

lemma malloc_simps [simp]:
  "fst (malloc n st) = Buffer (length (mallocs st))"
  "encoder (snd (malloc n st)) = encoder st"
  "mallocs (snd (malloc n st)) = mallocs st @ [n]"
  "temporaries (snd (malloc n st)) = temporaries st"
  by (simp_all add: malloc_def)

section \<open>The full attention kernel\<close>

lemma full_params:
  assumes "sdpa_full_self_attention_metal ext q k v sc out c msk st = Some st'"
  shows "\<exists>p. bound_bytes 4 (issued st st') = Some (bytes_AttnParams p)
     \<and> qL p = shape q ! 2 \<and> kL p = shape k ! 2
     \<and> int_div (shape q ! 2 + 32 - 1) 32 = Some (NQ p)
     \<and> int_div (shape k ! 2 + (if last (shape q) < 128 then 32 else 16) - 1)
          (if last (shape q) < 128 then 32 else 16) = Some (NK p)
     \<and> int_div (shape q ! 2) 32 = Some (NQ_aligned p)
     \<and> int_div (shape k ! 2) (if last (shape q) < 128 then 32 else 16) = Some (NK_aligned p)
     \<and> qL_rem p = shape q ! 2 - NQ_aligned p * 32
     \<and> kL_rem p = shape k ! 2 - NK_aligned p * (if last (shape q) < 128 then 32 else 16)
     \<and> qL_off p = shape k ! 2 - shape q ! 2"
  using assms
  apply (simp add: sdpa_full_self_attention_metal_def bind_eq_Some_conv Let_def)
  apply (elim exE conjE)
  apply (cases msk)
   apply (auto simp: issued_def encode_def bind_eq_Some_conv
      dest!: shape_at_numeral shape_at_last int_add_Some int_sub_Some int_mul_Some)
  done

lemma full_kernels:
  assumes "sdpa_full_self_attention_metal ext q k v sc out c msk st = Some st'"
  shows "\<exists>h f. kernels (issued st st') =
      [get_kernel (''steel_attention_'' @ type_to_name ext (dtype q)
         @ ''_bq'' @ to_string 32
         @ ''_bk'' @ to_string (if last (shape q) < 128 then 32 else 16)
         @ ''_bd'' @ to_string (last (shape q))
         @ ''_wm'' @ to_string 4 @ ''_wn'' @ to_string 1
         @ ''_mask'' @ type_to_name ext (dtype (case msk of Some m \<Rightarrow> m | None \<Rightarrow> q)))
         ''mlx'' h f]"
  using assms
  apply (simp add: sdpa_full_self_attention_metal_def bind_eq_Some_conv Let_def)
  apply (elim exE conjE)
  apply (cases msk)
   apply (auto simp: issued_def encode_def bind_eq_Some_conv dest!: shape_at_last)
  done

lemma full_inputs:
  assumes "sdpa_full_self_attention_metal ext q k v sc out c msk st = Some st'"
  shows "encoder st' = encoder st @ issued st st'
     \<and> mallocs st' = mallocs st \<and> temporaries st' = temporaries st
     \<and> bound_input 0 (issued st st') = Some q
     \<and> bound_input 1 (issued st st') = Some k
     \<and> bound_input 2 (issued st st') = Some v"
  using assms
  apply (simp add: sdpa_full_self_attention_metal_def bind_eq_Some_conv Let_def)
  apply (elim exE conjE)
  apply (cases msk)
   apply (auto simp: issued_def encode_def bind_eq_Some_conv)
  done

lemma full_mask:
  assumes "sdpa_full_self_attention_metal ext q k v sc out c (Some m) st = Some st'"
  shows "bound_input 6 (issued st st') = Some m
     \<and> bound_bytes 5 (issued st st')
         = Some (bytes_AttnMaskParams \<lparr>M_strides = [strides m ! 0, strides m ! 1, strides m ! 2]\<rparr>)"
  using assms
  apply (simp add: sdpa_full_self_attention_metal_def bind_eq_Some_conv Let_def)
  apply (elim exE conjE)
  apply (auto simp: issued_def encode_def bind_eq_Some_conv
      dest!: strides_at_numeral strides_at_0 strides_at_1)
  done

section \<open>The vector kernels\<close>

lemma mask_stride_Some:
  assumes "mask_stride m i = Some s" and "0 < i"
  shows "s = (if i \<le> ndim m \<and> 1 < shape m ! (ndim m - i)
              then to_int32_t (strides m ! (ndim m - i)) else 0)"
  using assms
  by (auto simp: mask_stride_def Let_def shape_at_def at_dim_def ndim_def bind_eq_Some_conv
      nat_diff_distrib' of_nat_diff
      dest!: subscript_Some split: if_splits)

lemma vector_kernels:
  assumes "sdpa_vector ext q k v out sc msk st = Some st'"
  shows "\<exists>x h f. kernels (issued st st') = [get_kernel (''sdpa_vector_'' @ x) ''mlx'' h f]"
  using assms
  apply (simp add: sdpa_vector_def bind_eq_Some_conv Let_def)
  apply (elim exE conjE)
  apply (cases msk)
   apply (auto simp: issued_def encode_def bind_eq_Some_conv)
  done

lemma vector_inputs:
  assumes "sdpa_vector ext q k v out sc msk st = Some st'"
  shows "encoder st' = encoder st @ issued st st'
     \<and> mallocs st' = mallocs st \<and> temporaries st' = temporaries st
     \<and> bound_input 0 (issued st st') = Some q
     \<and> bound_input 1 (issued st st') = Some k
     \<and> bound_input 2 (issued st st') = Some v"
  using assms
  apply (simp add: sdpa_vector_def bind_eq_Some_conv Let_def)
  apply (elim exE conjE)
  apply (cases msk)
   apply (auto simp: issued_def encode_def bind_eq_Some_conv)
  done

lemma vector_mask:
  assumes "sdpa_vector ext q k v out sc (Some m) st = Some st'"
  shows "\<exists>s1 s2 s3. mask_stride m 1 = Some s1 \<and> mask_stride m 2 = Some s2
     \<and> mask_stride m 3 = Some s3
     \<and> bound_input 11 (issued st st') = Some m
     \<and> bound_bytes 12 (issued st st') = Some (bytes_int32_t s1)
     \<and> bound_bytes 13 (issued st st') = Some (bytes_int32_t s2)
     \<and> bound_bytes 14 (issued st st') = Some (bytes_int32_t s3)"
  using assms
  apply (simp add: sdpa_vector_def bind_eq_Some_conv Let_def)
  apply (elim exE conjE)
  apply (auto simp: issued_def encode_def bind_eq_Some_conv)
  done

lemma vector_nomask:
  assumes "sdpa_vector ext q k v out sc None st = Some st'"
  shows "bound_input 11 (issued st st') = None"
  using assms
  apply (simp add: sdpa_vector_def bind_eq_Some_conv Let_def)
  apply (elim exE conjE)
  apply (auto simp: issued_def encode_def bind_eq_Some_conv)
  done

lemma vector_2pass_kernels:
  assumes "sdpa_vector_2pass ext q k v out sc msk st = Some st'"
  shows "\<exists>x h f y. kernels (issued st st') =
      [get_kernel (''sdpa_vector_2pass_1_'' @ x) ''mlx'' h f,
       get_kernel_named (''sdpa_vector_2pass_2_'' @ y)]"
  using assms
  apply (simp add: sdpa_vector_2pass_def bind_eq_Some_conv Let_def split_def)
  apply (elim exE conjE)
  apply (cases msk)
   apply (auto simp: issued_def encode_def bind_eq_Some_conv split: if_splits)
  done

lemma vector_2pass_inputs:
  assumes "sdpa_vector_2pass ext q k v out sc msk st = Some st'"
  shows "encoder st' = encoder st @ issued st st'
     \<and> (\<exists>ms. mallocs st' = mallocs st @ ms)
     \<and> bound_input 0 (issued st st') = Some q
     \<and> bound_input 1 (issued st st') = Some k
     \<and> bound_input 2 (issued st st') = Some v"
  using assms
  apply (simp add: sdpa_vector_2pass_def bind_eq_Some_conv Let_def split_def)
  apply (elim exE conjE)
  apply (cases msk)
   apply (auto simp: issued_def encode_def bind_eq_Some_conv split: if_splits)
  done

lemma vector_2pass_mask:
  assumes "sdpa_vector_2pass ext q k v out sc (Some m) st = Some st'"
  shows "\<exists>s1 s2 s3. mask_stride m 1 = Some s1 \<and> mask_stride m 2 = Some s2
     \<and> mask_stride m 3 = Some s3
     \<and> bound_input 13 (issued st st') = Some m
     \<and> bound_bytes 14 (issued st st') = Some (bytes_int32_t s1)
     \<and> bound_bytes 15 (issued st st') = Some (bytes_int32_t s2)
     \<and> bound_bytes 16 (issued st st') = Some (bytes_int32_t s3)"
  using assms
  apply (simp add: sdpa_vector_2pass_def bind_eq_Some_conv Let_def split_def)
  apply (elim exE conjE)
  apply (auto simp: issued_def encode_def bind_eq_Some_conv split: if_splits)
  done

lemma copy_gpu_eq:
  "copy_gpu ext src dst t st =
     (set_data (dst\<lparr>strides := row_major_strides (shape dst)\<rparr>) (Buffer (length (mallocs st))),
      encode [copy_gpu_launch src
                (set_data (dst\<lparr>strides := row_major_strides (shape dst)\<rparr>) (Buffer (length (mallocs st)))) t]
        (snd (malloc (nbytes ext dst) st)))"
  by (simp add: copy_gpu_def malloc_def Let_def)

lemma set_data_simps [simp]:
  "shape (set_data a b) = shape a"
  "dtype (set_data a b) = dtype a"
  "strides (set_data a b) = strides a"
  "row_contiguous (flags (set_data a b))"
  "data (set_data a b) = Some b"
  by (simp_all add: set_data_def)

lemma copied_simps [simp]:
  "shape (copied ext a st) = shape a"
  "dtype (copied ext a st) = dtype a"
  "strides (copied ext a st) = row_major_strides (shape a)"
  "row_contiguous (flags (copied ext a st))"
  "data (copied ext a st) = Some (Buffer (length (mallocs st)))"
  by (simp_all add: copied_def copy_gpu_eq new_array_def)

lemma copied_state_simps [simp]:
  "encoder (copied_state ext a st) = encoder st @ [copy_gpu_launch a (copied ext a st) General]"
  "mallocs (copied_state ext a st) = mallocs st @ [nbytes ext (new_array (shape a) (dtype a))]"
  "temporaries (copied_state ext a st) = temporaries st"
  by (simp_all add: copied_state_def copied_def copy_gpu_eq)

lemma elems_push_back [simp]: "elems (push_back a cv) = elems cv @ [a]"
  by (simp add: push_back_def)

lemma copy_unless_cases:
  assumes "copy_unless ext P arr cv st = Some (r, cv1, st1)"
  shows "\<exists>h. P arr = Some h \<and>
    (if h then r = ref_to arr \<and> cv1 = cv \<and> st1 = st
     else r = ref_to_copy (length (elems cv)) \<and> cv1 = push_back (copied ext arr st) cv
          \<and> st1 = copied_state ext arr st)"
proof (cases "P arr")
  case None
  with assms show ?thesis by (simp add: copy_unless_def)
next
  case (Some h)
  show ?thesis
  proof (cases h)
    case True
    with assms Some show ?thesis by (auto simp: copy_unless_def)
  next
    case False
    with assms Some show ?thesis
      by (auto simp: copy_unless_def copied_def copied_state_def split_def Let_def)
  qed
qed

lemma deref_ref_to [simp]: "deref cv (ref_to a) = Some a"
  by (simp add: deref_def)

lemma deref_copy_Some: "deref cv (ref_to_copy i) = Some a \<Longrightarrow> a = elems cv ! i \<and> i < length (elems cv)"
  by (simp add: deref_def split: if_splits)

lemma is_matrix_contiguous_iff: "is_matrix_contiguous a = Some h \<Longrightarrow> h = (strides_at a (- 1) = Some 1)"
  by (auto simp: is_matrix_contiguous_def bind_eq_Some_conv)

section \<open>The vector branch\<close>

lemma eval_gpu_vector_parts:
  assumes "eval_gpu_vector ext inputs out sc cv st = Some (out1, cv3, st5)"
  obtains qr cv1 st1 kr cv2 st2 vr st3 q k v st4 two where
      "copy_unless ext is_contiguous_or_head_seq_transposed (inputs ! 0) cv st = Some (qr, cv1, st1)"
      "copy_unless ext is_matrix_contiguous (inputs ! Suc 0) cv1 st1 = Some (kr, cv2, st2)"
      "copy_unless ext is_matrix_contiguous (inputs ! 2) cv2 st2 = Some (vr, cv3, st3)"
      "deref cv3 qr = Some q" "deref cv3 kr = Some k" "deref cv3 vr = Some v"
      "vector_output ext q out st3 = Some (out1, st4)"
      "use_2pass ext q k = Some two"
      "(if two then sdpa_vector_2pass ext q k v out1 sc
                   (if 3 < length inputs then Some (inputs ! 3) else None) st4
       else sdpa_vector ext q k v out1 sc
                   (if 3 < length inputs then Some (inputs ! 3) else None) st4) = Some st5"
proof -
  from assms have "\<exists>a aa b.
        copy_unless ext is_contiguous_or_head_seq_transposed (inputs ! 0) cv st = Some (a, aa, b) \<and>
        (\<exists>ab ac ba.
            copy_unless ext is_matrix_contiguous (inputs ! Suc 0) aa b = Some (ab, ac, ba) \<and>
            (\<exists>aa ad b.
                copy_unless ext is_matrix_contiguous (inputs ! 2) ac ba = Some (aa, ad, b) \<and>
                (\<exists>y. deref ad a = Some y \<and>
                     (\<exists>ya. deref ad ab = Some ya \<and>
                           (\<exists>yb. deref ad aa = Some yb \<and>
                                 (\<exists>a ba.
                                     vector_output ext y out b = Some (a, ba) \<and>
                                     (\<exists>yc. use_2pass ext y ya = Some yc \<and>
   (if yc
    then sdpa_vector_2pass ext y ya yb a sc
          (if 3 < length inputs then Some (inputs ! 3) else None) ba
    else sdpa_vector ext y ya yb a sc
          (if 3 < length inputs then Some (inputs ! 3) else None) ba) =
   Some st5 \<and>
   a = out1 \<and> ad = cv3)))))))"
    by (simp add: eval_gpu_vector_def bind_eq_Some_conv Let_def)
  then show thesis
    by (elim exE conjE, hypsubst) (rule that; assumption)
qed

lemma passed_simps [simp]:
  "shape (passed ext h a st) = shape a"
  "dtype (passed ext h a st) = dtype a"
  "temporaries (passed_state ext h a st) = temporaries st"
  "encoder (passed_state ext h a st)
     = encoder st @ (if h then [] else [copy_gpu_launch a (passed ext h a st) General])"
  "mallocs (passed_state ext h a st)
     = mallocs st @ (if h then [] else [nbytes ext (new_array (shape a) (dtype a))])"
  by (simp_all add: passed_def passed_state_def)

lemma passed_True [simp]: "passed ext True a st = a"
  by (simp add: passed_def)

lemma passed_False:
  "strides (passed ext False a st) = row_major_strides (shape a)"
  "row_contiguous (flags (passed ext False a st))"
  "data (passed ext False a st) = Some (Buffer (length (mallocs st)))"
  by (simp_all add: passed_def)

lemma eval_gpu_vector_Some:
  assumes "eval_gpu_vector ext inputs out sc cv st = Some (out1, cv3, st5)"
  obtains hq hk hv st4 two where
    "is_contiguous_or_head_seq_transposed (inputs ! 0) = Some hq"
    "is_matrix_contiguous (inputs ! 1) = Some hk"
    "is_matrix_contiguous (inputs ! 2) = Some hv"
    "vector_output ext (passed ext hq (inputs ! 0) st) out
       (passed_state ext hv (inputs ! 2) (passed_state ext hk (inputs ! 1)
          (passed_state ext hq (inputs ! 0) st))) = Some (out1, st4)"
    "use_2pass ext (passed ext hq (inputs ! 0) st)
       (passed ext hk (inputs ! 1) (passed_state ext hq (inputs ! 0) st)) = Some two"
    "(if two then sdpa_vector_2pass else sdpa_vector) ext
       (passed ext hq (inputs ! 0) st)
       (passed ext hk (inputs ! 1) (passed_state ext hq (inputs ! 0) st))
       (passed ext hv (inputs ! 2) (passed_state ext hk (inputs ! 1)
          (passed_state ext hq (inputs ! 0) st)))
       out1 sc (if 3 < length inputs then Some (inputs ! 3) else None) st4 = Some st5"
    "elems cv3 = elems cv
       @ (if hq then [] else [passed ext hq (inputs ! 0) st])
       @ (if hk then [] else [passed ext hk (inputs ! 1) (passed_state ext hq (inputs ! 0) st)])
       @ (if hv then [] else [passed ext hv (inputs ! 2) (passed_state ext hk (inputs ! 1)
          (passed_state ext hq (inputs ! 0) st))])"
proof -
  from eval_gpu_vector_parts [OF assms] obtain qr cv1 st1 kr cv2 st2 vr st3 q k v st4 two where
    cq: "copy_unless ext is_contiguous_or_head_seq_transposed (inputs ! 0) cv st = Some (qr, cv1, st1)"
    and ck: "copy_unless ext is_matrix_contiguous (inputs ! Suc 0) cv1 st1 = Some (kr, cv2, st2)"
    and cv: "copy_unless ext is_matrix_contiguous (inputs ! 2) cv2 st2 = Some (vr, cv3, st3)"
    and dq: "deref cv3 qr = Some q" and dk: "deref cv3 kr = Some k" and dv: "deref cv3 vr = Some v"
    and vo: "vector_output ext q out st3 = Some (out1, st4)"
    and tp: "use_2pass ext q k = Some two"
    and run: "(if two then sdpa_vector_2pass ext q k v out1 sc
                   (if 3 < length inputs then Some (inputs ! 3) else None) st4
       else sdpa_vector ext q k v out1 sc
                   (if 3 < length inputs then Some (inputs ! 3) else None) st4) = Some st5"
    by blast
  from copy_unless_cases [OF cq] obtain hq where
    hq: "is_contiguous_or_head_seq_transposed (inputs ! 0) = Some hq"
      "if hq then qr = ref_to (inputs ! 0) \<and> cv1 = cv \<and> st1 = st
       else qr = ref_to_copy (length (elems cv)) \<and> cv1 = push_back (copied ext (inputs ! 0) st) cv
          \<and> st1 = copied_state ext (inputs ! 0) st" by blast
  from copy_unless_cases [OF ck] obtain hk where
    hk: "is_matrix_contiguous (inputs ! 1) = Some hk"
      "if hk then kr = ref_to (inputs ! 1) \<and> cv2 = cv1 \<and> st2 = st1
       else kr = ref_to_copy (length (elems cv1)) \<and> cv2 = push_back (copied ext (inputs ! 1) st1) cv1
          \<and> st2 = copied_state ext (inputs ! 1) st1" by auto
  from copy_unless_cases [OF cv] obtain hv where
    hv: "is_matrix_contiguous (inputs ! 2) = Some hv"
      "if hv then vr = ref_to (inputs ! 2) \<and> cv3 = cv2 \<and> st3 = st2
       else vr = ref_to_copy (length (elems cv2)) \<and> cv3 = push_back (copied ext (inputs ! 2) st2) cv2
          \<and> st3 = copied_state ext (inputs ! 2) st2" by blast
  have s1: "st1 = passed_state ext hq (inputs ! 0) st"
    using hq(2) by (simp add: passed_state_def split: if_splits)
  have s2: "st2 = passed_state ext hk (inputs ! 1) st1"
    using hk(2) by (simp add: passed_state_def split: if_splits)
  have s3: "st3 = passed_state ext hv (inputs ! 2) st2"
    using hv(2) by (simp add: passed_state_def split: if_splits)
  have e1: "elems cv1 = elems cv @ (if hq then [] else [passed ext hq (inputs ! 0) st])"
    using hq(2) by (simp add: passed_def split: if_splits)
  have e2: "elems cv2 = elems cv1 @ (if hk then [] else [passed ext hk (inputs ! 1) st1])"
    using hk(2) by (simp add: passed_def split: if_splits)
  have e3: "elems cv3 = elems cv2 @ (if hv then [] else [passed ext hv (inputs ! 2) st2])"
    using hv(2) by (simp add: passed_def split: if_splits)
  have q: "q = passed ext hq (inputs ! 0) st"
  proof (cases hq)
    case True with hq(2) dq show ?thesis by simp
  next
    case False
    with hq(2) dq have "q = elems cv3 ! length (elems cv)" by (auto dest: deref_copy_Some)
    with False show ?thesis by (simp add: e3 e2 e1 nth_append)
  qed
  have k: "k = passed ext hk (inputs ! 1) st1"
  proof (cases hk)
    case True with hk(2) dk show ?thesis by simp
  next
    case False
    with hk(2) dk have "k = elems cv3 ! length (elems cv1)" by (auto dest: deref_copy_Some)
    with False show ?thesis by (simp add: e3 e2 nth_append)
  qed
  have v: "v = passed ext hv (inputs ! 2) st2"
  proof (cases hv)
    case True with hv(2) dv show ?thesis by simp
  next
    case False
    with hv(2) dv have "v = elems cv3 ! length (elems cv2)" by (auto dest: deref_copy_Some)
    with False show ?thesis by (simp add: e3 nth_append)
  qed
  have run': "(if two then sdpa_vector_2pass else sdpa_vector) ext q k v
       out1 sc (if 3 < length inputs then Some (inputs ! 3) else None) st4 = Some st5"
    using run by (cases two) simp_all
  show thesis
    using that [OF hq(1) hk(1) hv(1)] vo tp run' e1 e2 e3
    unfolding q k v s1 s2 s3 by simp
qed

section \<open>The choice of the vector kernel and the output of the vector branch\<close>

lemma use_2pass_Some:
  assumes "use_2pass ext q k = Some t"
  shows "t = ((large_device ext \<and> 1024 \<le> shape k ! 2)
            \<or> (shape k ! 1 < shape q ! 1 \<and> 4096 \<le> shape k ! 2))"
  using assms
  by (auto simp: use_2pass_def large_device_def bind_eq_Some_conv
      dest!: shape_at_numeral shape_at_1 split: if_splits)

lemma vector_output_Some:
  assumes "vector_output ext q out st = Some (out1, st1)"
  shows "encoder st1 = encoder st \<and> temporaries st1 = temporaries st \<and>
    (if is_donatable ext q \<and> array_size q = array_size out
        \<and> (shape q ! 2 = 1 \<or> \<not> row_contiguous (flags q))
     then out1 = copy_shared_buffer out q \<and> st1 = st
     else mallocs st1 = mallocs st @ [nbytes ext out] \<and>
       (if shape out ! 2 = 1 then out1 = set_data out (Buffer (length (mallocs st)))
        else 2 < length (strides out)
           \<and> out1 = set_data_strided out (Buffer (length (mallocs st))) (array_size out)
               ((strides out)[2 := shape out ! 1 * shape out ! 3, 1 := shape out ! 3])
               ((flags q)\<lparr>row_contiguous := (shape q ! 1 = 1)\<rparr>)))"
  using assms
  by (auto simp: vector_output_def bind_eq_Some_conv Let_def split_def
      dest!: shape_at_numeral shape_at_1 int_mul_Some split: if_splits)

section \<open>The dispatcher\<close>

lemma eval_gpu_Some:
  assumes "eval_gpu ext inputs out sc c st = Some (out1, st1)"
  obtains cv' st' where
    "2 < length inputs"
    "(if shape (inputs ! 0) ! 2 \<le> 8
      then eval_gpu_vector ext inputs out sc (reserve 3 \<lparr>elems = [], capacity = 0, stale = 0\<rparr>) st
      else eval_gpu_full ext inputs out sc c (reserve 3 \<lparr>elems = [], capacity = 0, stale = 0\<rparr>) st)
     = Some (out1, cv', st')"
    "st1 = add_temporaries (elems cv') st'"
proof -
  from assms have "\<exists>y. subscript inputs 0 = Some y \<and>
         (\<exists>y. subscript inputs (Suc 0) = Some y) \<and>
         (\<exists>y. subscript inputs 2 = Some y) \<and>
         (\<exists>ya. shape_at y 2 = Some ya \<and>
               (\<exists>a b. (if ya \<le> 8
                       then eval_gpu_vector ext inputs out sc
                             (reserve 3 \<lparr>elems = [], capacity = 0, stale = 0\<rparr>) st
                       else eval_gpu_full ext inputs out sc c
                             (reserve 3 \<lparr>elems = [], capacity = 0, stale = 0\<rparr>) st) =
                      Some (out1, a, b) \<and>
                      add_temporaries (elems a) b = st1))"
    by (simp add: eval_gpu_def bind_eq_Some_conv Let_def split_def cong: if_cong)
  then obtain y ya a b where
    y: "subscript inputs 0 = Some y" and l: "subscript inputs 2 \<noteq> None"
    and ya: "shape_at y 2 = Some ya"
    and r: "(if ya \<le> 8
                       then eval_gpu_vector ext inputs out sc
                             (reserve 3 \<lparr>elems = [], capacity = 0, stale = 0\<rparr>) st
                       else eval_gpu_full ext inputs out sc c
                             (reserve 3 \<lparr>elems = [], capacity = 0, stale = 0\<rparr>) st) =
                      Some (out1, a, b)"
    and s: "add_temporaries (elems a) b = st1"
    by auto
  have 1: "2 < length inputs" using l by (simp add: subscript_def split: if_splits)
  have 2: "y = inputs ! 0" using y by (simp add: subscript_def split: if_splits)
  have 3: "ya = shape (inputs ! 0) ! 2" using ya 2 by (auto dest: shape_at_numeral)
  show thesis using that [OF 1 _ s [symmetric]] r unfolding 3 by simp
qed

section \<open>Rounding\<close>

lemma ceil_div_int: "0 < b \<Longrightarrow> (a + b - 1) div b = - (- a div b)" for a b :: int
proof -
  assume b: "0 < b"
  define q where "q = a div b"
  define r where "r = a mod b"
  have a: "a = q * b + r" and r: "0 \<le> r" "r < b"
    using b by (simp_all add: q_def r_def)
  show ?thesis
  proof (cases "r = 0")
    case True
    have "(a + b - 1) div b = (q * b + (b - 1)) div b" using a True by (simp add: algebra_simps)
    also have "\<dots> = q" using b by (simp add: div_pos_pos_trivial)
    finally have 1: "(a + b - 1) div b = q" .
    have "- a div b = ((- q) * b) div b" using a True by simp
    also have "\<dots> = - q" using b by (simp del: mult_minus_left)
    finally have "- a div b = - q" .
    with 1 show ?thesis by simp
  next
    case False
    have "(a + b - 1) div b = ((q + 1) * b + (r - 1)) div b" using a by (simp add: algebra_simps)
    also have "\<dots> = q + 1" using b r False by (simp add: div_pos_pos_trivial)
    finally have 1: "(a + b - 1) div b = q + 1" .
    have "- a div b = ((- q - 1) * b + (b - r)) div b" using a by (simp add: algebra_simps)
    also have "\<dots> = - q - 1" using b r False by (simp add: div_pos_pos_trivial)
    finally have "- a div b = - q - 1" .
    with 1 show ?thesis by simp
  qed
qed

lemma ceil_div_pos:
  "0 < b \<Longrightarrow> (a + b - 1) div b = \<lceil>real_of_int a / real_of_int b\<rceil>" for a b :: int
  by (simp add: ceil_div_int ceiling_divide_eq_div)

lemma ceil_div_covers: "0 < b \<Longrightarrow> a \<le> (a + b - 1) div b * b" for a b :: int
proof -
  assume b: "0 < b"
  have "a + b - 1 = (a + b - 1) div b * b + (a + b - 1) mod b" by simp
  moreover have "(a + b - 1) mod b < b" using b by simp
  ultimately show ?thesis by linarith
qed

section \<open>Evaluation of concrete calls\<close>

lemmas eval_defs =
  shape_at_def strides_at_def at_dim_def ndim_def subscript_def
  int_div_def int_mod_def int_add_def int_sub_def int_mul_def int64_mul_def
  int_result_def int64_result_def
  tensor_def strided_tensor_def new_array_def set_data_def set_data_strided_def
  copy_shared_buffer_def Let_def encode_def
  to_string_def digits10.simps to_size_t_def to_int32_t_def array_size_def nbytes_def
  device_def idle_def malloc_def add_temporary_def add_temporaries_def

lemma shape_tensor [simp]: "shape (tensor s n) = s"
  by (simp add: tensor_def new_array_def set_data_def)

section \<open>The full attention branch\<close>

lemma eval_gpu_full_parts:
  assumes "eval_gpu_full ext inputs out sc c cv st = Some (out1, cv4, st6)"
  obtains qr cv1 st1 kr cv2 st2 vr cv3 st3 mk cvx st5 q k v y yb yc yd where
      "copy_unless ext is_matrix_contiguous (inputs ! 0) cv st = Some (qr, cv1, st1)"
      "copy_unless ext is_matrix_contiguous (inputs ! Suc 0) cv1 st1 = Some (kr, cv2, st2)"
      "copy_unless ext is_matrix_contiguous (inputs ! 2) cv2 st2 = Some (vr, cv3, st3)"
      "(if 3 < length inputs
        then copy_unless ext is_matrix_contiguous (inputs ! 3) cv3
               (snd (malloc (nbytes ext out) st3)) \<bind>
             (\<lambda>p. deref (fst (snd p)) (fst p) \<bind> (\<lambda>m. Some (Some m, snd p)))
        else Some (None, cv3, snd (malloc (nbytes ext out) st3))) = Some (mk, cvx, st5)"
      "deref cvx qr = Some q" "deref cvx kr = Some k" "deref cvx vr = Some v"
      "sdpa_full_self_attention_metal ext q k v sc
        (set_data_strided out (Buffer (length (mallocs st3))) (to_size_t yd) [yc, y, yb, 1]
          \<lparr>contiguous = True, row_contiguous = False, col_contiguous = False\<rparr>)
        c mk st5 = Some st6"
      "set_data_strided out (Buffer (length (mallocs st3))) (to_size_t yd) [yc, y, yb, 1]
          \<lparr>contiguous = True, row_contiguous = False, col_contiguous = False\<rparr> = out1"
      "cvx = cv4"
proof -
  from assms have "\<exists>a aa b.
        copy_unless ext is_matrix_contiguous (inputs ! 0) cv st = Some (a, aa, b) \<and>
        (\<exists>ab ac ba.
            copy_unless ext is_matrix_contiguous (inputs ! Suc 0) aa b = Some (ab, ac, ba) \<and>
            (\<exists>aa ad b.
                copy_unless ext is_matrix_contiguous (inputs ! 2) ac ba = Some (aa, ad, b) \<and>
                (\<exists>y. shape_at out 3 = Some y \<and>
                     (\<exists>ya. shape_at out 1 = Some ya \<and>
                           (\<exists>yb. int64_mul ya y = Some yb \<and>
                                 (\<exists>ya. shape_at out 2 = Some ya \<and>
 (\<exists>yc. int64_mul ya yb = Some yc \<and>
       (\<exists>ya. shape_at out 0 = Some ya \<and>
             (\<exists>yd. int64_mul ya yc = Some yd \<and>
                   (\<exists>ac ae ba.
                       (if 3 < length inputs
                        then copy_unless ext is_matrix_contiguous (inputs ! 3) ad
                              (snd (malloc (nbytes ext out) b)) \<bind>
                             (\<lambda>p. deref (fst (snd p)) (fst p) \<bind>
                                  (\<lambda>m. Some (Some m, snd p)))
                        else Some (None, ad, snd (malloc (nbytes ext out) b))) =
                       Some (ac, ae, ba) \<and>
                       (\<exists>ya. deref ae a = Some ya \<and>
                             (\<exists>ye. deref ae ab = Some ye \<and>
                                   (\<exists>yf. deref ae aa = Some yf \<and>
 sdpa_full_self_attention_metal ext ya ye yf sc
  (set_data_strided out (Buffer (length (mallocs b))) (to_size_t yd) [yc, y, yb, 1]
    \<lparr>contiguous = True, row_contiguous = False, col_contiguous = False\<rparr>)
  c ac ba = Some st6 \<and>
 set_data_strided out (Buffer (length (mallocs b))) (to_size_t yd) [yc, y, yb, 1]
  \<lparr>contiguous = True, row_contiguous = False, col_contiguous = False\<rparr> = out1 \<and>
 ae = cv4)))))))))))))"
    by (simp add: eval_gpu_full_def bind_eq_Some_conv Let_def split_def cong: if_cong)
  then show thesis
    by (elim exE conjE) (rule that; assumption)
qed

lemma full_mask_part:
  assumes "(if 3 < length inputs
        then copy_unless ext is_matrix_contiguous (inputs ! 3) cv3 s4 \<bind>
             (\<lambda>p. deref (fst (snd p)) (fst p) \<bind> (\<lambda>m. Some (Some m, snd p)))
        else Some (None, cv3, s4)) = Some (mk, cv4, st5)"
  shows "\<exists>hm. (3 < length inputs \<longrightarrow> is_matrix_contiguous (inputs ! 3) = Some hm)
     \<and> mk = (if 3 < length inputs then Some (passed ext hm (inputs ! 3) s4) else None)
     \<and> st5 = (if 3 < length inputs then passed_state ext hm (inputs ! 3) s4 else s4)
     \<and> elems cv4 = elems cv3
         @ (if 3 < length inputs \<and> \<not> hm then [passed ext hm (inputs ! 3) s4] else [])"
proof (cases "3 < length inputs")
  case False
  with assms show ?thesis by simp
next
  case True
  with assms obtain mr m where
    c: "copy_unless ext is_matrix_contiguous (inputs ! 3) cv3 s4 = Some (mr, cv4, st5)"
    and d: "deref cv4 mr = Some m" and mk: "mk = Some m"
    by (auto simp: bind_eq_Some_conv)
  from copy_unless_cases [OF c] obtain hm where
    hm: "is_matrix_contiguous (inputs ! 3) = Some hm"
      "if hm then mr = ref_to (inputs ! 3) \<and> cv4 = cv3 \<and> st5 = s4
       else mr = ref_to_copy (length (elems cv3))
          \<and> cv4 = push_back (copied ext (inputs ! 3) s4) cv3
          \<and> st5 = copied_state ext (inputs ! 3) s4" by blast
  show ?thesis
  proof (cases hm)
    case True
    with hm d mk \<open>3 < length inputs\<close> show ?thesis
      by (intro exI [of _ True]) (simp add: passed_state_def)
  next
    case False
    with hm d have "m = elems cv4 ! length (elems cv3)" by (auto dest: deref_copy_Some)
    with False hm mk \<open>3 < length inputs\<close> show ?thesis
      by (intro exI [of _ False]) (simp add: passed_def passed_state_def)
  qed
qed

lemma eval_gpu_full_Some:
  assumes "eval_gpu_full ext inputs out sc c cv st = Some (out1, cv4, st6)"
  obtains hq hk hv hm where
    "is_matrix_contiguous (inputs ! 0) = Some hq"
    "is_matrix_contiguous (inputs ! 1) = Some hk"
    "is_matrix_contiguous (inputs ! 2) = Some hv"
    "3 < length inputs \<longrightarrow> is_matrix_contiguous (inputs ! 3) = Some hm"
    "sdpa_full_self_attention_metal ext
       (passed ext hq (inputs ! 0) st)
       (passed ext hk (inputs ! 1) (passed_state ext hq (inputs ! 0) st))
       (passed ext hv (inputs ! 2) (passed_state ext hk (inputs ! 1)
          (passed_state ext hq (inputs ! 0) st)))
       sc out1 c
       (if 3 < length inputs
        then Some (passed ext hm (inputs ! 3) (snd (malloc (nbytes ext out)
          (passed_state ext hv (inputs ! 2) (passed_state ext hk (inputs ! 1)
            (passed_state ext hq (inputs ! 0) st))))))
        else None)
       (if 3 < length inputs
        then passed_state ext hm (inputs ! 3) (snd (malloc (nbytes ext out)
          (passed_state ext hv (inputs ! 2) (passed_state ext hk (inputs ! 1)
            (passed_state ext hq (inputs ! 0) st)))))
        else snd (malloc (nbytes ext out)
          (passed_state ext hv (inputs ! 2) (passed_state ext hk (inputs ! 1)
            (passed_state ext hq (inputs ! 0) st)))))
       = Some st6"
proof (rule eval_gpu_full_parts [OF assms])
  fix qr cv1 st1 kr cv2 st2 vr cv3 st3 mk cvx st5 q k v y yb yc yd
  assume cq: "copy_unless ext is_matrix_contiguous (inputs ! 0) cv st = Some (qr, cv1, st1)"
    and ck: "copy_unless ext is_matrix_contiguous (inputs ! Suc 0) cv1 st1 = Some (kr, cv2, st2)"
    and cv: "copy_unless ext is_matrix_contiguous (inputs ! 2) cv2 st2 = Some (vr, cv3, st3)"
    and cm: "(if 3 < length inputs
        then copy_unless ext is_matrix_contiguous (inputs ! 3) cv3
               (snd (malloc (nbytes ext out) st3)) \<bind>
             (\<lambda>p. deref (fst (snd p)) (fst p) \<bind> (\<lambda>m. Some (Some m, snd p)))
        else Some (None, cv3, snd (malloc (nbytes ext out) st3))) = Some (mk, cvx, st5)"
    and dq: "deref cvx qr = Some q" and dk: "deref cvx kr = Some k" and dv: "deref cvx vr = Some v"
    and run: "sdpa_full_self_attention_metal ext q k v sc
        (set_data_strided out (Buffer (length (mallocs st3))) (to_size_t yd) [yc, y, yb, 1]
          \<lparr>contiguous = True, row_contiguous = False, col_contiguous = False\<rparr>)
        c mk st5 = Some st6"
    and o1: "set_data_strided out (Buffer (length (mallocs st3))) (to_size_t yd) [yc, y, yb, 1]
          \<lparr>contiguous = True, row_contiguous = False, col_contiguous = False\<rparr> = out1"
    and cx: "cvx = cv4"
  from copy_unless_cases [OF cq] obtain hq where
    hq: "is_matrix_contiguous (inputs ! 0) = Some hq"
      "if hq then qr = ref_to (inputs ! 0) \<and> cv1 = cv \<and> st1 = st
       else qr = ref_to_copy (length (elems cv)) \<and> cv1 = push_back (copied ext (inputs ! 0) st) cv
          \<and> st1 = copied_state ext (inputs ! 0) st" by blast
  from copy_unless_cases [OF ck] obtain hk where
    hk: "is_matrix_contiguous (inputs ! 1) = Some hk"
      "if hk then kr = ref_to (inputs ! 1) \<and> cv2 = cv1 \<and> st2 = st1
       else kr = ref_to_copy (length (elems cv1)) \<and> cv2 = push_back (copied ext (inputs ! 1) st1) cv1
          \<and> st2 = copied_state ext (inputs ! 1) st1" by auto
  from copy_unless_cases [OF cv] obtain hv where
    hv: "is_matrix_contiguous (inputs ! 2) = Some hv"
      "if hv then vr = ref_to (inputs ! 2) \<and> cv3 = cv2 \<and> st3 = st2
       else vr = ref_to_copy (length (elems cv2)) \<and> cv3 = push_back (copied ext (inputs ! 2) st2) cv2
          \<and> st3 = copied_state ext (inputs ! 2) st2" by blast
  from full_mask_part [OF cm] obtain hm where
    hm: "3 < length inputs \<longrightarrow> is_matrix_contiguous (inputs ! 3) = Some hm"
    and mk: "mk = (if 3 < length inputs
                   then Some (passed ext hm (inputs ! 3) (snd (malloc (nbytes ext out) st3)))
                   else None)"
    and s5: "st5 = (if 3 < length inputs
                    then passed_state ext hm (inputs ! 3) (snd (malloc (nbytes ext out) st3))
                    else snd (malloc (nbytes ext out) st3))"
    and e4: "elems cvx = elems cv3
         @ (if 3 < length inputs \<and> \<not> hm
            then [passed ext hm (inputs ! 3) (snd (malloc (nbytes ext out) st3))] else [])"
    by blast
  have s1: "st1 = passed_state ext hq (inputs ! 0) st"
    using hq(2) by (simp add: passed_state_def split: if_splits)
  have s2: "st2 = passed_state ext hk (inputs ! 1) st1"
    using hk(2) by (simp add: passed_state_def split: if_splits)
  have s3: "st3 = passed_state ext hv (inputs ! 2) st2"
    using hv(2) by (simp add: passed_state_def split: if_splits)
  have e1: "elems cv1 = elems cv @ (if hq then [] else [passed ext hq (inputs ! 0) st])"
    using hq(2) by (simp add: passed_def split: if_splits)
  have e2: "elems cv2 = elems cv1 @ (if hk then [] else [passed ext hk (inputs ! 1) st1])"
    using hk(2) by (simp add: passed_def split: if_splits)
  have e3: "elems cv3 = elems cv2 @ (if hv then [] else [passed ext hv (inputs ! 2) st2])"
    using hv(2) by (simp add: passed_def split: if_splits)
  have q: "q = passed ext hq (inputs ! 0) st"
  proof (cases hq)
    case True with hq(2) dq show ?thesis by simp
  next
    case False
    with hq(2) dq have "q = elems cvx ! length (elems cv)" by (auto dest: deref_copy_Some)
    with False show ?thesis by (simp add: e4 e3 e2 e1 nth_append)
  qed
  have k: "k = passed ext hk (inputs ! 1) st1"
  proof (cases hk)
    case True with hk(2) dk show ?thesis by simp
  next
    case False
    with hk(2) dk have "k = elems cvx ! length (elems cv1)" by (auto dest: deref_copy_Some)
    with False show ?thesis by (simp add: e4 e3 e2 nth_append)
  qed
  have v: "v = passed ext hv (inputs ! 2) st2"
  proof (cases hv)
    case True with hv(2) dv show ?thesis by simp
  next
    case False
    with hv(2) dv have "v = elems cvx ! length (elems cv2)" by (auto dest: deref_copy_Some)
    with False show ?thesis by (simp add: e4 e3 nth_append)
  qed
  note run1 = run [unfolded o1]
  show thesis
    by (rule that [OF hq(1) hk(1) hv(1) hm]) (use run1 in \<open>unfold mk s5 q k v s1 s2 s3\<close>)
qed

section \<open>What a call of the dispatcher issued\<close>

lemma through_copy [simp]:
  "kernels ((if h then [] else [copy_gpu_launch a b t]) @ cs) = kernels cs"
  "bound_input i ((if h then [] else [copy_gpu_launch a b t]) @ cs) = bound_input i cs"
  "bound_bytes i ((if h then [] else [copy_gpu_launch a b t]) @ cs) = bound_bytes i cs"
  by simp_all

lemma issued_trans:
  "encoder s1 = encoder s0 @ cs \<Longrightarrow> encoder s2 = encoder s1 @ ds \<Longrightarrow> issued s0 s2 = cs @ ds"
  by (simp add: issued_def)

lemma path_of_kernels:
  "kernels cs = [get_kernel (''sdpa_vector_'' @ x) l h f]
     \<Longrightarrow> single_pass cs \<and> \<not> two_pass cs \<and> \<not> full_mode cs"
  "kernels cs = [get_kernel (''sdpa_vector_2pass_1_'' @ x) l h f,
                 get_kernel_named (''sdpa_vector_2pass_2_'' @ y)]
     \<Longrightarrow> two_pass cs \<and> \<not> single_pass cs \<and> \<not> full_mode cs"
  "kernels cs = [get_kernel (''steel_attention_'' @ x) l h f]
     \<Longrightarrow> full_mode cs \<and> \<not> single_pass cs \<and> \<not> two_pass cs"
  by (simp_all add: single_pass_def two_pass_def full_mode_def)

lemma vector_call:
  assumes "eval_gpu ext inputs out sc c st = Some (out', st')"
      and "shape (inputs ! 0) ! 2 \<le> 8"
  obtains hq hk hv st4 st5 two where
    "is_contiguous_or_head_seq_transposed (inputs ! 0) = Some hq"
    "is_matrix_contiguous (inputs ! 1) = Some hk"
    "is_matrix_contiguous (inputs ! 2) = Some hv"
    "vector_output ext (passed ext hq (inputs ! 0) st) out
       (passed_state ext hv (inputs ! 2) (passed_state ext hk (inputs ! 1)
          (passed_state ext hq (inputs ! 0) st))) = Some (out', st4)"
    "use_2pass ext (passed ext hq (inputs ! 0) st)
       (passed ext hk (inputs ! 1) (passed_state ext hq (inputs ! 0) st)) = Some two"
    "(if two then sdpa_vector_2pass else sdpa_vector) ext
       (passed ext hq (inputs ! 0) st)
       (passed ext hk (inputs ! 1) (passed_state ext hq (inputs ! 0) st))
       (passed ext hv (inputs ! 2) (passed_state ext hk (inputs ! 1)
          (passed_state ext hq (inputs ! 0) st)))
       out' sc (if 3 < length inputs then Some (inputs ! 3) else None) st4 = Some st5"
    "issued st st' =
       (if hq then [] else [copy_gpu_launch (inputs ! 0) (passed ext hq (inputs ! 0) st) General])
       @ (if hk then [] else [copy_gpu_launch (inputs ! 1)
            (passed ext hk (inputs ! 1) (passed_state ext hq (inputs ! 0) st)) General])
       @ (if hv then [] else [copy_gpu_launch (inputs ! 2)
            (passed ext hv (inputs ! 2) (passed_state ext hk (inputs ! 1)
               (passed_state ext hq (inputs ! 0) st))) General])
       @ issued st4 st5"
    "mallocs st' = mallocs st5"
    "2 < length inputs"
proof (rule eval_gpu_Some [OF assms(1)])
  fix cv' s'
  assume n: "2 < length inputs"
    and r: "(if shape (inputs ! 0) ! 2 \<le> 8
      then eval_gpu_vector ext inputs out sc (reserve 3 \<lparr>elems = [], capacity = 0, stale = 0\<rparr>) st
      else eval_gpu_full ext inputs out sc c (reserve 3 \<lparr>elems = [], capacity = 0, stale = 0\<rparr>) st)
     = Some (out', cv', s')"
    and s: "st' = add_temporaries (elems cv') s'"
  from r assms(2) have r': "eval_gpu_vector ext inputs out sc
      (reserve 3 \<lparr>elems = [], capacity = 0, stale = 0\<rparr>) st = Some (out', cv', s')" by simp
  show thesis
  proof (rule eval_gpu_vector_Some [OF r'])
    fix hq hk hv st4 two
    assume hq: "is_contiguous_or_head_seq_transposed (inputs ! 0) = Some hq"
      and hk: "is_matrix_contiguous (inputs ! 1) = Some hk"
      and hv: "is_matrix_contiguous (inputs ! 2) = Some hv"
      and vo: "vector_output ext (passed ext hq (inputs ! 0) st) out
       (passed_state ext hv (inputs ! 2) (passed_state ext hk (inputs ! 1)
          (passed_state ext hq (inputs ! 0) st))) = Some (out', st4)"
      and tp: "use_2pass ext (passed ext hq (inputs ! 0) st)
       (passed ext hk (inputs ! 1) (passed_state ext hq (inputs ! 0) st)) = Some two"
      and run: "(if two then sdpa_vector_2pass else sdpa_vector) ext
       (passed ext hq (inputs ! 0) st)
       (passed ext hk (inputs ! 1) (passed_state ext hq (inputs ! 0) st))
       (passed ext hv (inputs ! 2) (passed_state ext hk (inputs ! 1)
          (passed_state ext hq (inputs ! 0) st)))
       out' sc (if 3 < length inputs then Some (inputs ! 3) else None) st4 = Some s'"
    have e4: "encoder st4 = encoder (passed_state ext hv (inputs ! 2)
        (passed_state ext hk (inputs ! 1) (passed_state ext hq (inputs ! 0) st)))"
      using vector_output_Some [OF vo] by simp
    have e5: "encoder s' = encoder st4 @ issued st4 s'"
      using run vector_inputs vector_2pass_inputs by (cases two) auto
    have "issued st s' =
       ((if hq then [] else [copy_gpu_launch (inputs ! 0) (passed ext hq (inputs ! 0) st) General])
       @ (if hk then [] else [copy_gpu_launch (inputs ! 1)
            (passed ext hk (inputs ! 1) (passed_state ext hq (inputs ! 0) st)) General])
       @ (if hv then [] else [copy_gpu_launch (inputs ! 2)
            (passed ext hv (inputs ! 2) (passed_state ext hk (inputs ! 1)
               (passed_state ext hq (inputs ! 0) st))) General]))
       @ issued st4 s'"
      by (rule issued_trans [OF _ e5]) (simp add: e4)
    then have i: "issued st st' =
       (if hq then [] else [copy_gpu_launch (inputs ! 0) (passed ext hq (inputs ! 0) st) General])
       @ (if hk then [] else [copy_gpu_launch (inputs ! 1)
            (passed ext hk (inputs ! 1) (passed_state ext hq (inputs ! 0) st)) General])
       @ (if hv then [] else [copy_gpu_launch (inputs ! 2)
            (passed ext hv (inputs ! 2) (passed_state ext hk (inputs ! 1)
               (passed_state ext hq (inputs ! 0) st))) General])
       @ issued st4 s'"
      by (simp add: s issued_def)
    have m: "mallocs st' = mallocs s'" by (simp add: s)
    show thesis by (rule that [OF hq hk hv vo tp run i m n])
  qed
qed

lemma full_call:
  assumes "eval_gpu ext inputs out sc c st = Some (out', st')"
      and "8 < shape (inputs ! 0) ! 2"
  obtains hq hk hv hm s5 st6 where
    "is_matrix_contiguous (inputs ! 0) = Some hq"
    "is_matrix_contiguous (inputs ! 1) = Some hk"
    "is_matrix_contiguous (inputs ! 2) = Some hv"
    "3 < length inputs \<longrightarrow> is_matrix_contiguous (inputs ! 3) = Some hm"
    "s5 = (if 3 < length inputs
        then passed_state ext hm (inputs ! 3) (snd (malloc (nbytes ext out)
          (passed_state ext hv (inputs ! 2) (passed_state ext hk (inputs ! 1)
            (passed_state ext hq (inputs ! 0) st)))))
        else snd (malloc (nbytes ext out)
          (passed_state ext hv (inputs ! 2) (passed_state ext hk (inputs ! 1)
            (passed_state ext hq (inputs ! 0) st)))))"
    "sdpa_full_self_attention_metal ext
       (passed ext hq (inputs ! 0) st)
       (passed ext hk (inputs ! 1) (passed_state ext hq (inputs ! 0) st))
       (passed ext hv (inputs ! 2) (passed_state ext hk (inputs ! 1)
          (passed_state ext hq (inputs ! 0) st)))
       sc out' c
       (if 3 < length inputs
        then Some (passed ext hm (inputs ! 3) (snd (malloc (nbytes ext out)
          (passed_state ext hv (inputs ! 2) (passed_state ext hk (inputs ! 1)
            (passed_state ext hq (inputs ! 0) st))))))
        else None) s5 = Some st6"
    "issued st st' =
       (if hq then [] else [copy_gpu_launch (inputs ! 0) (passed ext hq (inputs ! 0) st) General])
       @ (if hk then [] else [copy_gpu_launch (inputs ! 1)
            (passed ext hk (inputs ! 1) (passed_state ext hq (inputs ! 0) st)) General])
       @ (if hv then [] else [copy_gpu_launch (inputs ! 2)
            (passed ext hv (inputs ! 2) (passed_state ext hk (inputs ! 1)
               (passed_state ext hq (inputs ! 0) st))) General])
       @ (if 3 < length inputs \<longrightarrow> hm then []
          else [copy_gpu_launch (inputs ! 3)
            (passed ext hm (inputs ! 3) (snd (malloc (nbytes ext out)
              (passed_state ext hv (inputs ! 2) (passed_state ext hk (inputs ! 1)
                (passed_state ext hq (inputs ! 0) st)))))) General])
       @ issued s5 st6"
    "mallocs st' = mallocs st6"
    "2 < length inputs"
proof (rule eval_gpu_Some [OF assms(1)])
  fix cv' s'
  assume n: "2 < length inputs"
    and r: "(if shape (inputs ! 0) ! 2 \<le> 8
      then eval_gpu_vector ext inputs out sc (reserve 3 \<lparr>elems = [], capacity = 0, stale = 0\<rparr>) st
      else eval_gpu_full ext inputs out sc c (reserve 3 \<lparr>elems = [], capacity = 0, stale = 0\<rparr>) st)
     = Some (out', cv', s')"
    and s: "st' = add_temporaries (elems cv') s'"
  from r assms(2) have r': "eval_gpu_full ext inputs out sc c
      (reserve 3 \<lparr>elems = [], capacity = 0, stale = 0\<rparr>) st = Some (out', cv', s')" by simp
  show thesis
  proof (rule eval_gpu_full_Some [OF r'])
    fix hq hk hv hm
    define s3 where "s3 = passed_state ext hv (inputs ! 2) (passed_state ext hk (inputs ! 1)
            (passed_state ext hq (inputs ! 0) st))"
    define s5 where "s5 = (if 3 < length inputs
        then passed_state ext hm (inputs ! 3) (snd (malloc (nbytes ext out) s3))
        else snd (malloc (nbytes ext out) s3))"
    assume hq: "is_matrix_contiguous (inputs ! 0) = Some hq"
      and hk: "is_matrix_contiguous (inputs ! 1) = Some hk"
      and hv: "is_matrix_contiguous (inputs ! 2) = Some hv"
      and hm: "3 < length inputs \<longrightarrow> is_matrix_contiguous (inputs ! 3) = Some hm"
      and run: "sdpa_full_self_attention_metal ext
       (passed ext hq (inputs ! 0) st)
       (passed ext hk (inputs ! 1) (passed_state ext hq (inputs ! 0) st))
       (passed ext hv (inputs ! 2) (passed_state ext hk (inputs ! 1)
          (passed_state ext hq (inputs ! 0) st)))
       sc out' c
       (if 3 < length inputs
        then Some (passed ext hm (inputs ! 3) (snd (malloc (nbytes ext out)
          (passed_state ext hv (inputs ! 2) (passed_state ext hk (inputs ! 1)
            (passed_state ext hq (inputs ! 0) st))))))
        else None)
       (if 3 < length inputs
        then passed_state ext hm (inputs ! 3) (snd (malloc (nbytes ext out)
          (passed_state ext hv (inputs ! 2) (passed_state ext hk (inputs ! 1)
            (passed_state ext hq (inputs ! 0) st)))))
        else snd (malloc (nbytes ext out)
          (passed_state ext hv (inputs ! 2) (passed_state ext hk (inputs ! 1)
            (passed_state ext hq (inputs ! 0) st)))))
       = Some s'"
    note run5 = run [folded s3_def, folded s5_def]
    have e5: "encoder s5 = encoder st @
       ((if hq then [] else [copy_gpu_launch (inputs ! 0) (passed ext hq (inputs ! 0) st) General])
       @ (if hk then [] else [copy_gpu_launch (inputs ! 1)
            (passed ext hk (inputs ! 1) (passed_state ext hq (inputs ! 0) st)) General])
       @ (if hv then [] else [copy_gpu_launch (inputs ! 2)
            (passed ext hv (inputs ! 2) (passed_state ext hk (inputs ! 1)
               (passed_state ext hq (inputs ! 0) st))) General])
       @ (if 3 < length inputs \<longrightarrow> hm then []
          else [copy_gpu_launch (inputs ! 3)
            (passed ext hm (inputs ! 3) (snd (malloc (nbytes ext out) s3))) General]))"
      by (cases "3 < length inputs") (simp_all add: s5_def s3_def)
    have e6: "encoder s' = encoder s5 @ issued s5 s'"
      using full_inputs [OF run5] by simp
    have "issued st s' =
       ((if hq then [] else [copy_gpu_launch (inputs ! 0) (passed ext hq (inputs ! 0) st) General])
       @ (if hk then [] else [copy_gpu_launch (inputs ! 1)
            (passed ext hk (inputs ! 1) (passed_state ext hq (inputs ! 0) st)) General])
       @ (if hv then [] else [copy_gpu_launch (inputs ! 2)
            (passed ext hv (inputs ! 2) (passed_state ext hk (inputs ! 1)
               (passed_state ext hq (inputs ! 0) st))) General])
       @ (if 3 < length inputs \<longrightarrow> hm then []
          else [copy_gpu_launch (inputs ! 3)
            (passed ext hm (inputs ! 3) (snd (malloc (nbytes ext out) s3))) General]))
       @ issued s5 s'"
      by (rule issued_trans [OF e5 e6])
    then have i: "issued st st' =
       (if hq then [] else [copy_gpu_launch (inputs ! 0) (passed ext hq (inputs ! 0) st) General])
       @ (if hk then [] else [copy_gpu_launch (inputs ! 1)
            (passed ext hk (inputs ! 1) (passed_state ext hq (inputs ! 0) st)) General])
       @ (if hv then [] else [copy_gpu_launch (inputs ! 2)
            (passed ext hv (inputs ! 2) (passed_state ext hk (inputs ! 1)
               (passed_state ext hq (inputs ! 0) st))) General])
       @ (if 3 < length inputs \<longrightarrow> hm then []
          else [copy_gpu_launch (inputs ! 3)
            (passed ext hm (inputs ! 3) (snd (malloc (nbytes ext out)
              (passed_state ext hv (inputs ! 2) (passed_state ext hk (inputs ! 1)
                (passed_state ext hq (inputs ! 0) st)))))) General])
       @ issued s5 s'"
      by (simp add: s issued_def s3_def)
    have m: "mallocs st' = mallocs s'" by (simp add: s)
    show thesis
      by (rule that [OF hq hk hv hm _ _ i m n, of])
         (simp_all only: s5_def s3_def run [folded s3_def, folded s5_def, unfolded s5_def s3_def])
  qed
qed

section \<open>The path of a call\<close>

lemma vector_path:
  assumes "eval_gpu ext inputs out sc c st = Some (out', st')"
      and "shape (inputs ! 0) ! 2 \<le> 8"
  shows "two_pass (issued st st') =
           ((large_device ext \<and> 1024 \<le> shape (inputs ! 1) ! 2)
            \<or> (shape (inputs ! 1) ! 1 < shape (inputs ! 0) ! 1 \<and> 4096 \<le> shape (inputs ! 1) ! 2))
       \<and> single_pass (issued st st') = (\<not> two_pass (issued st st'))
       \<and> \<not> full_mode (issued st st')"
proof (rule vector_call [OF assms])
  fix hq hk hv st4 st5 two
  assume tp: "use_2pass ext (passed ext hq (inputs ! 0) st)
       (passed ext hk (inputs ! 1) (passed_state ext hq (inputs ! 0) st)) = Some two"
    and run: "(if two then sdpa_vector_2pass else sdpa_vector) ext
       (passed ext hq (inputs ! 0) st)
       (passed ext hk (inputs ! 1) (passed_state ext hq (inputs ! 0) st))
       (passed ext hv (inputs ! 2) (passed_state ext hk (inputs ! 1)
          (passed_state ext hq (inputs ! 0) st)))
       out' sc (if 3 < length inputs then Some (inputs ! 3) else None) st4 = Some st5"
    and i: "issued st st' =
       (if hq then [] else [copy_gpu_launch (inputs ! 0) (passed ext hq (inputs ! 0) st) General])
       @ (if hk then [] else [copy_gpu_launch (inputs ! 1)
            (passed ext hk (inputs ! 1) (passed_state ext hq (inputs ! 0) st)) General])
       @ (if hv then [] else [copy_gpu_launch (inputs ! 2)
            (passed ext hv (inputs ! 2) (passed_state ext hk (inputs ! 1)
               (passed_state ext hq (inputs ! 0) st))) General])
       @ issued st4 st5"
  have k: "kernels (issued st st') = kernels (issued st4 st5)"
    unfolding i by simp
  have two: "two = ((large_device ext \<and> 1024 \<le> shape (inputs ! 1) ! 2)
            \<or> (shape (inputs ! 1) ! 1 < shape (inputs ! 0) ! 1 \<and> 4096 \<le> shape (inputs ! 1) ! 2))"
    using use_2pass_Some [OF tp] by simp
  show ?thesis
  proof (cases two)
    case True
    with run have r2: "sdpa_vector_2pass ext
       (passed ext hq (inputs ! 0) st)
       (passed ext hk (inputs ! 1) (passed_state ext hq (inputs ! 0) st))
       (passed ext hv (inputs ! 2) (passed_state ext hk (inputs ! 1)
          (passed_state ext hq (inputs ! 0) st)))
       out' sc (if 3 < length inputs then Some (inputs ! 3) else None) st4 = Some st5"
      by simp
    from vector_2pass_kernels [OF r2] obtain x h f y where
      "kernels (issued st4 st5) =
        [get_kernel (''sdpa_vector_2pass_1_'' @ x) ''mlx'' h f,
         get_kernel_named (''sdpa_vector_2pass_2_'' @ y)]"
      by blast
    then have "kernels (issued st st') =
        [get_kernel (''sdpa_vector_2pass_1_'' @ x) ''mlx'' h f,
         get_kernel_named (''sdpa_vector_2pass_2_'' @ y)]"
      by (simp only: k)
    from path_of_kernels(2) [OF this] True two show ?thesis by simp
  next
    case False
    with run have r1: "sdpa_vector ext
       (passed ext hq (inputs ! 0) st)
       (passed ext hk (inputs ! 1) (passed_state ext hq (inputs ! 0) st))
       (passed ext hv (inputs ! 2) (passed_state ext hk (inputs ! 1)
          (passed_state ext hq (inputs ! 0) st)))
       out' sc (if 3 < length inputs then Some (inputs ! 3) else None) st4 = Some st5"
      by simp
    from vector_kernels [OF r1] obtain x h f where
      "kernels (issued st4 st5) = [get_kernel (''sdpa_vector_'' @ x) ''mlx'' h f]"
      by blast
    then have "kernels (issued st st') = [get_kernel (''sdpa_vector_'' @ x) ''mlx'' h f]"
      by (simp only: k)
    from path_of_kernels(1) [OF this] False two show ?thesis by simp
  qed
qed

lemma full_kernels_prefix:
  assumes "sdpa_full_self_attention_metal ext q k v sc out c msk st = Some st'"
  shows "\<exists>x h f. kernels (issued st st') = [get_kernel (''steel_attention_'' @ x) ''mlx'' h f]"
  using assms
  apply (simp add: sdpa_full_self_attention_metal_def bind_eq_Some_conv Let_def)
  apply (elim exE conjE)
  apply (cases msk)
   apply (auto simp: issued_def encode_def bind_eq_Some_conv)
  done

lemma full_path:
  assumes "eval_gpu ext inputs out sc c st = Some (out', st')"
      and "8 < shape (inputs ! 0) ! 2"
  shows "full_mode (issued st st') \<and> \<not> single_pass (issued st st')
       \<and> \<not> two_pass (issued st st')"
proof (rule full_call [OF assms])
  fix hq hk hv hm s5 st6
  assume run: "sdpa_full_self_attention_metal ext
       (passed ext hq (inputs ! 0) st)
       (passed ext hk (inputs ! 1) (passed_state ext hq (inputs ! 0) st))
       (passed ext hv (inputs ! 2) (passed_state ext hk (inputs ! 1)
          (passed_state ext hq (inputs ! 0) st)))
       sc out' c
       (if 3 < length inputs
        then Some (passed ext hm (inputs ! 3) (snd (malloc (nbytes ext out)
          (passed_state ext hv (inputs ! 2) (passed_state ext hk (inputs ! 1)
            (passed_state ext hq (inputs ! 0) st))))))
        else None) s5 = Some st6"
    and i: "issued st st' =
       (if hq then [] else [copy_gpu_launch (inputs ! 0) (passed ext hq (inputs ! 0) st) General])
       @ (if hk then [] else [copy_gpu_launch (inputs ! 1)
            (passed ext hk (inputs ! 1) (passed_state ext hq (inputs ! 0) st)) General])
       @ (if hv then [] else [copy_gpu_launch (inputs ! 2)
            (passed ext hv (inputs ! 2) (passed_state ext hk (inputs ! 1)
               (passed_state ext hq (inputs ! 0) st))) General])
       @ (if 3 < length inputs \<longrightarrow> hm then []
          else [copy_gpu_launch (inputs ! 3)
            (passed ext hm (inputs ! 3) (snd (malloc (nbytes ext out)
              (passed_state ext hv (inputs ! 2) (passed_state ext hk (inputs ! 1)
                (passed_state ext hq (inputs ! 0) st)))))) General])
       @ issued s5 st6"
  have k: "kernels (issued st st') = kernels (issued s5 st6)"
    unfolding i by simp
  from full_kernels_prefix [OF run] obtain x h f where
    "kernels (issued s5 st6) = [get_kernel (''steel_attention_'' @ x) ''mlx'' h f]"
    by blast
  then have "kernels (issued st st') = [get_kernel (''steel_attention_'' @ x) ''mlx'' h f]"
    by (simp only: k)
  from path_of_kernels(3) [OF this] show ?thesis .
qed

section \<open>The output of the vector branch\<close>

lemma vector_storage:
  assumes "eval_gpu ext inputs out sc c st = Some (out', st')"
      and "shape (inputs ! 0) ! 2 \<le> 8"
  shows "\<exists>q n. bound_input 0 (issued st st') = Some q
     \<and> shape q = shape (inputs ! 0)
     \<and> (q = inputs ! 0 \<and> length (mallocs st) \<le> n
         \<or> data q = Some (Buffer (length (mallocs st))) \<and> length (mallocs st) < n)
     \<and> (if is_donatable ext q \<and> array_size q = array_size out
            \<and> (shape q ! 2 = 1 \<or> \<not> row_contiguous (flags q))
         then out' = copy_shared_buffer out q
         else n < length (mallocs st') \<and> mallocs st' ! n = nbytes ext out
            \<and> (if shape out ! 2 = 1 then out' = set_data out (Buffer n)
                else 2 < length (strides out)
                   \<and> out' = set_data_strided out (Buffer n) (array_size out)
                       ((strides out)[2 := shape out ! 1 * shape out ! 3, 1 := shape out ! 3])
                       ((flags q)\<lparr>row_contiguous := (shape q ! 1 = 1)\<rparr>)))"
proof (rule vector_call [OF assms])
  fix hq hk hv st4 st5 two
  define q where "q = passed ext hq (inputs ! 0) st"
  define s3 where "s3 = passed_state ext hv (inputs ! 2) (passed_state ext hk (inputs ! 1)
          (passed_state ext hq (inputs ! 0) st))"
  assume vo: "vector_output ext (passed ext hq (inputs ! 0) st) out
       (passed_state ext hv (inputs ! 2) (passed_state ext hk (inputs ! 1)
          (passed_state ext hq (inputs ! 0) st))) = Some (out', st4)"
    and run: "(if two then sdpa_vector_2pass else sdpa_vector) ext
       (passed ext hq (inputs ! 0) st)
       (passed ext hk (inputs ! 1) (passed_state ext hq (inputs ! 0) st))
       (passed ext hv (inputs ! 2) (passed_state ext hk (inputs ! 1)
          (passed_state ext hq (inputs ! 0) st)))
       out' sc (if 3 < length inputs then Some (inputs ! 3) else None) st4 = Some st5"
    and i: "issued st st' =
       (if hq then [] else [copy_gpu_launch (inputs ! 0) (passed ext hq (inputs ! 0) st) General])
       @ (if hk then [] else [copy_gpu_launch (inputs ! 1)
            (passed ext hk (inputs ! 1) (passed_state ext hq (inputs ! 0) st)) General])
       @ (if hv then [] else [copy_gpu_launch (inputs ! 2)
            (passed ext hv (inputs ! 2) (passed_state ext hk (inputs ! 1)
               (passed_state ext hq (inputs ! 0) st))) General])
       @ issued st4 st5"
    and m: "mallocs st' = mallocs st5"
  note vo' = vo [folded q_def s3_def]
  have b0: "bound_input 0 (issued st4 st5) = Some q"
    using run vector_inputs vector_2pass_inputs unfolding q_def by (cases two) auto
  have b: "bound_input 0 (issued st st') = Some q"
    unfolding i using b0 by simp
  have m5: "\<exists>ms. mallocs st5 = mallocs st4 @ ms"
    using run vector_inputs vector_2pass_inputs by (cases two) auto
  have sq: "shape q = shape (inputs ! 0)" by (simp add: q_def)
  have m3: "\<exists>ms. mallocs s3 = mallocs st @ (if hq then [] else [nbytes ext (new_array (shape (inputs ! 0)) (dtype (inputs ! 0)))]) @ ms"
    by (simp add: s3_def)
  then obtain ms where ms: "mallocs s3 = mallocs st
      @ (if hq then [] else [nbytes ext (new_array (shape (inputs ! 0)) (dtype (inputs ! 0)))]) @ ms"
    by blast
  have fresh: "q = inputs ! 0 \<and> length (mallocs st) \<le> length (mallocs s3)
         \<or> data q = Some (Buffer (length (mallocs st))) \<and> length (mallocs st) < length (mallocs s3)"
    using ms by (cases hq) (simp_all add: q_def passed_False)
  have out: "if is_donatable ext q \<and> array_size q = array_size out
            \<and> (shape q ! 2 = 1 \<or> \<not> row_contiguous (flags q))
         then out' = copy_shared_buffer out q
         else length (mallocs s3) < length (mallocs st')
            \<and> mallocs st' ! length (mallocs s3) = nbytes ext out
            \<and> (if shape out ! 2 = 1 then out' = set_data out (Buffer (length (mallocs s3)))
                else 2 < length (strides out)
                   \<and> out' = set_data_strided out (Buffer (length (mallocs s3))) (array_size out)
                       ((strides out)[2 := shape out ! 1 * shape out ! 3, 1 := shape out ! 3])
                       ((flags q)\<lparr>row_contiguous := (shape q ! 1 = 1)\<rparr>))"
    using vector_output_Some [OF vo'] m5 m by (auto simp: nth_append)
  show ?thesis
    using b sq fresh out by blast
qed

section \<open>The claims\<close>

text \<open>
  C3. For every full-mode call the tile sizes and the parameter block are as follows. The
  query tile size \<open>bq\<close> is 32 and the key tile size \<open>bk\<close> is 32 when the head dimension
  (read as \<^verbatim>\<open>q.shape(-1)\<close>) is below 128 and 16 otherwise: both are part of the name of the
  kernel. The block bound to slot 4 has \<open>NQ = ceil(Lq/bq)\<close>, \<open>NK = ceil(Lk/bk)\<close>,
  \<open>NQ_aligned = floor(Lq/bq)\<close>, \<open>NK_aligned = floor(Lk/bk)\<close>,
  \<open>qL_rem = Lq - NQ_aligned * bq\<close>, \<open>kL_rem = Lk - NK_aligned * bk\<close> and \<open>qL_off = Lk - Lq\<close>.
  A full-mode call has a query longer than 8; the key length is an extent, so not
  negative.
\<close>

theorem C3_full_mode_parameter_block:
  assumes "sdpa_full_self_attention_metal ext q k v sc out c msk st = Some st'"
      and "8 < shape q ! 2" and "0 \<le> shape k ! 2"
  shows "\<exists>p h f.
     (let Lq = shape q ! 2; Lk = shape k ! 2; bq = 32;
          bk = (if last (shape q) < 128 then 32 else 16)
      in kernels (issued st st') =
           [get_kernel (''steel_attention_'' @ type_to_name ext (dtype q)
              @ ''_bq'' @ to_string bq @ ''_bk'' @ to_string bk
              @ ''_bd'' @ to_string (last (shape q))
              @ ''_wm'' @ to_string 4 @ ''_wn'' @ to_string 1
              @ ''_mask'' @ type_to_name ext (dtype (case msk of Some m \<Rightarrow> m | None \<Rightarrow> q)))
              ''mlx'' h f]
       \<and> bound_bytes 4 (issued st st') = Some (bytes_AttnParams p)
       \<and> NQ p = \<lceil>real_of_int Lq / real_of_int bq\<rceil>
       \<and> NK p = \<lceil>real_of_int Lk / real_of_int bk\<rceil>
       \<and> NQ_aligned p = \<lfloor>real_of_int Lq / real_of_int bq\<rfloor>
       \<and> NK_aligned p = \<lfloor>real_of_int Lk / real_of_int bk\<rfloor>
       \<and> qL_rem p = Lq - NQ_aligned p * bq
       \<and> kL_rem p = Lk - NK_aligned p * bk
       \<and> qL_off p = Lk - Lq)"
proof -
  define bk :: int where "bk = (if last (shape q) < 128 then 32 else 16)"
  have bk: "0 < bk" by (simp add: bk_def)
  from full_params [OF assms(1), folded bk_def] obtain p where
    p: "bound_bytes 4 (issued st st') = Some (bytes_AttnParams p)"
    and nq: "int_div (shape q ! 2 + 32 - 1) 32 = Some (NQ p)"
    and nk: "int_div (shape k ! 2 + bk - 1) bk = Some (NK p)"
    and nqa: "int_div (shape q ! 2) 32 = Some (NQ_aligned p)"
    and nka: "int_div (shape k ! 2) bk = Some (NK_aligned p)"
    and rest: "qL_rem p = shape q ! 2 - NQ_aligned p * 32"
      "kL_rem p = shape k ! 2 - NK_aligned p * bk"
      "qL_off p = shape k ! 2 - shape q ! 2"
    by blast
  from full_kernels [OF assms(1), folded bk_def] obtain h f where
    kn: "kernels (issued st st') =
      [get_kernel (''steel_attention_'' @ type_to_name ext (dtype q)
         @ ''_bq'' @ to_string 32 @ ''_bk'' @ to_string bk
         @ ''_bd'' @ to_string (last (shape q))
         @ ''_wm'' @ to_string 4 @ ''_wn'' @ to_string 1
         @ ''_mask'' @ type_to_name ext (dtype (case msk of Some m \<Rightarrow> m | None \<Rightarrow> q)))
         ''mlx'' h f]"
    by blast
  have 1: "NQ p = \<lceil>real_of_int (shape q ! 2) / real_of_int 32\<rceil>"
    using int_div_Some_nonneg [OF nq] assms(2) ceil_div_pos [of 32 "shape q ! 2"] by simp
  have 2: "NK p = \<lceil>real_of_int (shape k ! 2) / real_of_int bk\<rceil>"
    using int_div_Some_nonneg [OF nk] assms(3) bk ceil_div_pos [of bk "shape k ! 2"] by simp
  have 3: "NQ_aligned p = \<lfloor>real_of_int (shape q ! 2) / real_of_int 32\<rfloor>"
    using int_div_Some_nonneg [OF nqa] assms(2)
      floor_divide_of_int_eq [of "shape q ! 2" 32, where ?'a = real] by simp
  have 4: "NK_aligned p = \<lfloor>real_of_int (shape k ! 2) / real_of_int bk\<rfloor>"
    using int_div_Some_nonneg [OF nka] assms(3) bk
      floor_divide_of_int_eq [of "shape k ! 2" bk, where ?'a = real] by simp
  show ?thesis
    unfolding Let_def bk_def [symmetric]
    using p kn 1 2 3 4 rest by (intro exI [of _ p] exI [of _ h] exI [of _ f]) simp
qed

text \<open>
  The scenario of the claim, B = 2, H = 8, Hk = 2, Lq = Lk = 50, D = 128, causal, no mask:
  the call returns, the kernel is the one with \<open>bq = 32\<close> and \<open>bk = 16\<close>, and \<open>NQ = 2\<close>,
  \<open>NK = 4\<close>, \<open>qL_rem = 18\<close>, \<open>kL_rem = 2\<close>, \<open>qL_off = 0\<close>.
\<close>

theorem C3_witness:
  "\<exists>st' p h f.
     sdpa_full_self_attention_metal (device ''applegpu_g14d'' (\<lambda>a. False))
       (tensor [2, 8, 50, 128] 0) (tensor [2, 2, 50, 128] 1) (tensor [2, 2, 50, 128] 2)
       0x3E000000 (tensor [2, 8, 50, 128] 3) True None (idle 4) = Some st'
   \<and> kernels (issued (idle 4) st') =
       [get_kernel ''steel_attention_float32_bq32_bk16_bd128_wm4_wn1_maskfloat32'' ''mlx'' h f]
   \<and> bound_bytes 4 (issued (idle 4) st') = Some (bytes_AttnParams p)
   \<and> NQ p = 2 \<and> NK p = 4 \<and> NQ_aligned p = 1 \<and> NK_aligned p = 3
   \<and> qL_rem p = 18 \<and> kL_rem p = 2 \<and> qL_off p = 0"
proof -
  have "sdpa_full_self_attention_metal (device ''applegpu_g14d'' (\<lambda>a. False))
       (tensor [2, 8, 50, 128] 0) (tensor [2, 2, 50, 128] 1) (tensor [2, 2, 50, 128] 2)
       0x3E000000 (tensor [2, 8, 50, 128] 3) True None (idle 4) \<noteq> None"
    by (simp add: sdpa_full_self_attention_metal_def eval_defs)
  then obtain st' where s: "sdpa_full_self_attention_metal (device ''applegpu_g14d'' (\<lambda>a. False))
       (tensor [2, 8, 50, 128] 0) (tensor [2, 2, 50, 128] 1) (tensor [2, 2, 50, 128] 2)
       0x3E000000 (tensor [2, 8, 50, 128] 3) True None (idle 4) = Some st'"
    by blast
  have h1: "8 < shape (tensor [2, 8, 50, 128] 0) ! 2" by simp
  have h2: "0 \<le> shape (tensor [2, 2, 50, 128] 1) ! 2" by simp
  from C3_full_mode_parameter_block [OF s h1 h2] obtain p h f where
    "kernels (issued (idle 4) st') =
       [get_kernel ''steel_attention_float32_bq32_bk16_bd128_wm4_wn1_maskfloat32'' ''mlx'' h f]
   \<and> bound_bytes 4 (issued (idle 4) st') = Some (bytes_AttnParams p)
   \<and> NQ p = 2 \<and> NK p = 4 \<and> NQ_aligned p = 1 \<and> NK_aligned p = 3
   \<and> qL_rem p = 18 \<and> kL_rem p = 2 \<and> qL_off p = 0"
    by (auto simp: Let_def device_def to_string_def digits10.simps tensor_def new_array_def set_data_def)
  with s show ?thesis by blast
qed

text \<open>
  C9. For every full-mode call with \<open>Lq \<ge> 1\<close> and \<open>Lk \<ge> 1\<close> the tile counts of the parameter
  block cover the sequence lengths: \<open>NQ * bq \<ge> Lq\<close> and \<open>NK * bk \<ge> Lk\<close>, where \<open>bq = 32\<close> and \<open>bk\<close>
  is 32 for a head dimension below 128 and 16 otherwise.
\<close>

theorem C9_tiles_cover_the_sequences:
  assumes "sdpa_full_self_attention_metal ext q k v sc out c msk st = Some st'"
      and "1 \<le> shape q ! 2" and "1 \<le> shape k ! 2"
  shows "\<exists>p. bound_bytes 4 (issued st st') = Some (bytes_AttnParams p)
     \<and> shape q ! 2 \<le> NQ p * 32
     \<and> shape k ! 2 \<le> NK p * (if last (shape q) < 128 then 32 else 16)"
proof -
  define bk :: int where "bk = (if last (shape q) < 128 then 32 else 16)"
  have bk: "0 < bk" by (simp add: bk_def)
  from full_params [OF assms(1), folded bk_def] obtain p where
    p: "bound_bytes 4 (issued st st') = Some (bytes_AttnParams p)"
    and nq: "int_div (shape q ! 2 + 32 - 1) 32 = Some (NQ p)"
    and nk: "int_div (shape k ! 2 + bk - 1) bk = Some (NK p)"
    by blast
  have 1: "NQ p = (shape q ! 2 + 32 - 1) div 32"
    using int_div_Some_nonneg [OF nq] assms(2) by simp
  have 2: "NK p = (shape k ! 2 + bk - 1) div bk"
    using int_div_Some_nonneg [OF nk] assms(3) bk by simp
  have "shape q ! 2 \<le> NQ p * 32"
    unfolding 1 by (rule ceil_div_covers) simp
  moreover have "shape k ! 2 \<le> NK p * bk"
    unfolding 2 by (rule ceil_div_covers) (rule bk)
  ultimately show ?thesis
    using p unfolding bk_def by blast
qed

theorem C9_witness:
  "\<exists>st' p.
     sdpa_full_self_attention_metal (device ''applegpu_g14d'' (\<lambda>a. False))
       (tensor [1, 4, 33, 64] 0) (tensor [1, 4, 70, 64] 1) (tensor [1, 4, 70, 64] 2)
       0x3E000000 (tensor [1, 4, 33, 64] 3) False None (idle 4) = Some st'
   \<and> bound_bytes 4 (issued (idle 4) st') = Some (bytes_AttnParams p)
   \<and> (33::int) \<le> NQ p * 32 \<and> (70::int) \<le> NK p * 32"
proof -
  have "sdpa_full_self_attention_metal (device ''applegpu_g14d'' (\<lambda>a. False))
       (tensor [1, 4, 33, 64] 0) (tensor [1, 4, 70, 64] 1) (tensor [1, 4, 70, 64] 2)
       0x3E000000 (tensor [1, 4, 33, 64] 3) False None (idle 4) \<noteq> None"
    by (simp add: sdpa_full_self_attention_metal_def eval_defs)
  then obtain st' where s: "sdpa_full_self_attention_metal (device ''applegpu_g14d'' (\<lambda>a. False))
       (tensor [1, 4, 33, 64] 0) (tensor [1, 4, 70, 64] 1) (tensor [1, 4, 70, 64] 2)
       0x3E000000 (tensor [1, 4, 33, 64] 3) False None (idle 4) = Some st'"
    by blast
  have h1: "1 \<le> shape (tensor [1, 4, 33, 64] 0) ! 2" by simp
  have h2: "1 \<le> shape (tensor [1, 4, 70, 64] 1) ! 2" by simp
  from C9_tiles_cover_the_sequences [OF s h1 h2] s show ?thesis
    by auto
qed

lemmas call_defs =
  eval_gpu_def eval_gpu_vector_def eval_gpu_full_def copy_unless_def
  is_contiguous_or_head_seq_transposed_def is_matrix_contiguous_def
  vector_output_def use_2pass_def sdpa_vector_def sdpa_vector_2pass_def
  sdpa_full_self_attention_metal_def reserve_def push_back_def deref_def copy_gpu_def
  mask_stride_def

text \<open>
  C1. Every call that returns issued the kernels of vector mode exactly when the query
  sequence length \<open>Lq\<close> (the third dimension of the query) is at most 8, and the kernel
  of full mode exactly when \<open>Lq\<close> is greater than 8.
\<close>

theorem C1_mode_by_query_length:
  assumes "eval_gpu ext inputs out sc c st = Some (out', st')"
  shows "(vector_mode (issued st st') \<longleftrightarrow> shape (inputs ! 0) ! 2 \<le> 8)
       \<and> (full_mode (issued st st') \<longleftrightarrow> 8 < shape (inputs ! 0) ! 2)"
proof (cases "shape (inputs ! 0) ! 2 \<le> 8")
  case True
  from vector_path [OF assms True] True show ?thesis
    by (auto simp: vector_mode_def)
next
  case False
  then have "8 < shape (inputs ! 0) ! 2" by simp
  from full_path [OF assms this] False show ?thesis
    by (auto simp: vector_mode_def)
qed

text \<open>The boundary: a query of length 8 runs in vector mode, one of length 9 in full mode.\<close>

theorem C1_witness:
  "(\<exists>out' st'.
      eval_gpu (device ''applegpu_g14g'' (\<lambda>a. False))
        [tensor [1, 1, 8, 64] 0, tensor [1, 1, 16, 64] 1, tensor [1, 1, 16, 64] 2]
        (new_array [1, 1, 8, 64] float32) 0x3E000000 False (idle 3) = Some (out', st')
      \<and> vector_mode (issued (idle 3) st') \<and> \<not> full_mode (issued (idle 3) st'))
   \<and> (\<exists>out' st'.
      eval_gpu (device ''applegpu_g14g'' (\<lambda>a. False))
        [tensor [1, 1, 9, 64] 0, tensor [1, 1, 16, 64] 1, tensor [1, 1, 16, 64] 2]
        (new_array [1, 1, 9, 64] float32) 0x3E000000 False (idle 3) = Some (out', st')
      \<and> full_mode (issued (idle 3) st') \<and> \<not> vector_mode (issued (idle 3) st'))"
proof -
  have "eval_gpu (device ''applegpu_g14g'' (\<lambda>a. False))
        [tensor [1, 1, 8, 64] 0, tensor [1, 1, 16, 64] 1, tensor [1, 1, 16, 64] 2]
        (new_array [1, 1, 8, 64] float32) 0x3E000000 False (idle 3) \<noteq> None"
    by (simp add: call_defs eval_defs)
  then obtain o8 s8 where e8: "eval_gpu (device ''applegpu_g14g'' (\<lambda>a. False))
        [tensor [1, 1, 8, 64] 0, tensor [1, 1, 16, 64] 1, tensor [1, 1, 16, 64] 2]
        (new_array [1, 1, 8, 64] float32) 0x3E000000 False (idle 3) = Some (o8, s8)"
    by auto
  have "eval_gpu (device ''applegpu_g14g'' (\<lambda>a. False))
        [tensor [1, 1, 9, 64] 0, tensor [1, 1, 16, 64] 1, tensor [1, 1, 16, 64] 2]
        (new_array [1, 1, 9, 64] float32) 0x3E000000 False (idle 3) \<noteq> None"
    by (simp add: call_defs eval_defs)
  then obtain o9 s9 where e9: "eval_gpu (device ''applegpu_g14g'' (\<lambda>a. False))
        [tensor [1, 1, 9, 64] 0, tensor [1, 1, 16, 64] 1, tensor [1, 1, 16, 64] 2]
        (new_array [1, 1, 9, 64] float32) 0x3E000000 False (idle 3) = Some (o9, s9)"
    by auto
  from C1_mode_by_query_length [OF e8]
  have "vector_mode (issued (idle 3) s8) \<and> \<not> full_mode (issued (idle 3) s8)" by simp
  moreover from C1_mode_by_query_length [OF e9]
  have "full_mode (issued (idle 3) s9) \<and> \<not> vector_mode (issued (idle 3) s9)" by simp
  ultimately show ?thesis using e8 e9 by blast
qed



text \<open>
  C8. For a fixed device and fixed numbers of query heads and key/value heads, the
  choice of the two-pass path is monotone in the key length: of two vector-mode calls
  that return, on the same device and with the same head counts, the one with the
  longer (or equal) key takes the two-pass path if the other one does.
\<close>

theorem C8_two_pass_monotone_in_key_length:
  assumes "eval_gpu ext inputs1 out1 sc1 c1 st1 = Some (out1', st1')"
      and "eval_gpu ext inputs2 out2 sc2 c2 st2 = Some (out2', st2')"
      and "shape (inputs1 ! 0) ! 2 \<le> 8" and "shape (inputs2 ! 0) ! 2 \<le> 8"
      and "shape (inputs1 ! 0) ! 1 = shape (inputs2 ! 0) ! 1"
      and "shape (inputs1 ! 1) ! 1 = shape (inputs2 ! 1) ! 1"
      and "shape (inputs1 ! 1) ! 2 \<le> shape (inputs2 ! 1) ! 2"
      and "two_pass (issued st1 st1')"
  shows "two_pass (issued st2 st2')"
  using vector_path [OF assms(1,3)] vector_path [OF assms(2,4)] assms(5-8) by auto

theorem C8_witness:
  "\<exists>out1' st1' out2' st2'.
      eval_gpu (device ''applegpu_g14d'' (\<lambda>a. False))
        [tensor [1, 1, 1, 64] 0, tensor [1, 1, 1024, 64] 1, tensor [1, 1, 1024, 64] 2]
        (new_array [1, 1, 1, 64] float32) 0x3E000000 False (idle 3) = Some (out1', st1')
    \<and> eval_gpu (device ''applegpu_g14d'' (\<lambda>a. False))
        [tensor [1, 1, 1, 64] 0, tensor [1, 1, 1500, 64] 1, tensor [1, 1, 1500, 64] 2]
        (new_array [1, 1, 1, 64] float32) 0x3E000000 False (idle 3) = Some (out2', st2')
    \<and> two_pass (issued (idle 3) st1') \<and> two_pass (issued (idle 3) st2')"
proof -
  have "eval_gpu (device ''applegpu_g14d'' (\<lambda>a. False))
        [tensor [1, 1, 1, 64] 0, tensor [1, 1, 1024, 64] 1, tensor [1, 1, 1024, 64] 2]
        (new_array [1, 1, 1, 64] float32) 0x3E000000 False (idle 3) \<noteq> None"
    by (simp add: call_defs eval_defs)
  then obtain o1 s1 where e1: "eval_gpu (device ''applegpu_g14d'' (\<lambda>a. False))
        [tensor [1, 1, 1, 64] 0, tensor [1, 1, 1024, 64] 1, tensor [1, 1, 1024, 64] 2]
        (new_array [1, 1, 1, 64] float32) 0x3E000000 False (idle 3) = Some (o1, s1)"
    by auto
  have "eval_gpu (device ''applegpu_g14d'' (\<lambda>a. False))
        [tensor [1, 1, 1, 64] 0, tensor [1, 1, 1500, 64] 1, tensor [1, 1, 1500, 64] 2]
        (new_array [1, 1, 1, 64] float32) 0x3E000000 False (idle 3) \<noteq> None"
    by (simp add: call_defs eval_defs)
  then obtain o2 s2 where e2: "eval_gpu (device ''applegpu_g14d'' (\<lambda>a. False))
        [tensor [1, 1, 1, 64] 0, tensor [1, 1, 1500, 64] 1, tensor [1, 1, 1500, 64] 2]
        (new_array [1, 1, 1, 64] float32) 0x3E000000 False (idle 3) = Some (o2, s2)"
    by auto
  have t1: "two_pass (issued (idle 3) s1)"
    using vector_path [OF e1] by (simp add: large_device_def device_def)
  have "two_pass (issued (idle 3) s2)"
    by (rule C8_two_pass_monotone_in_key_length [OF e1 e2 _ _ _ _ _ t1]) simp_all
  with t1 e1 e2 show ?thesis by blast
qed

text \<open>
  C10. In vector mode the causal flag has no effect on what a call does: two calls
  whose inputs differ only in that flag have the same result, the same commands on
  the encoder (kernels, function constants, arguments and launches) included. Neither
  vector dispatch function takes the flag.
\<close>

theorem C10_vector_mode_ignores_causal:
  assumes "shape (inputs ! 0) ! 2 \<le> 8"
  shows "eval_gpu ext inputs out sc True st = eval_gpu ext inputs out sc False st"
proof (cases "subscript inputs 0")
  case None
  then show ?thesis by (simp add: eval_gpu_def)
next
  case (Some q_pre)
  then have q: "q_pre = inputs ! 0" by (simp add: subscript_def split: if_splits)
  show ?thesis
  proof (cases "shape_at q_pre 2")
    case None
    with Some show ?thesis by (simp add: eval_gpu_def)
  next
    case (Some lq)
    then have "lq = shape (inputs ! 0) ! 2" using q by (auto dest: shape_at_numeral)
    with assms have "lq \<le> 8" by simp
    with Some \<open>subscript inputs 0 = Some q_pre\<close> show ?thesis
      by (simp add: eval_gpu_def)
  qed
qed

theorem C10_witness:
  "shape ([tensor [1, 4, 4, 64] 0, tensor [1, 4, 16, 64] 1, tensor [1, 4, 16, 64] 2] ! 0) ! 2 \<le> 8
   \<and> eval_gpu (device ''applegpu_g14g'' (\<lambda>a. False))
        [tensor [1, 4, 4, 64] 0, tensor [1, 4, 16, 64] 1, tensor [1, 4, 16, 64] 2]
        (new_array [1, 4, 4, 64] float32) 0x3E000000 True (idle 3)
     = eval_gpu (device ''applegpu_g14g'' (\<lambda>a. False))
        [tensor [1, 4, 4, 64] 0, tensor [1, 4, 16, 64] 1, tensor [1, 4, 16, 64] 2]
        (new_array [1, 4, 4, 64] float32) 0x3E000000 False (idle 3)
   \<and> eval_gpu (device ''applegpu_g14g'' (\<lambda>a. False))
        [tensor [1, 4, 4, 64] 0, tensor [1, 4, 16, 64] 1, tensor [1, 4, 16, 64] 2]
        (new_array [1, 4, 4, 64] float32) 0x3E000000 True (idle 3) \<noteq> None"
proof -
  have h: "shape ([tensor [1, 4, 4, 64] 0, tensor [1, 4, 16, 64] 1, tensor [1, 4, 16, 64] 2] ! 0) ! 2 \<le> 8"
    by simp
  have n: "eval_gpu (device ''applegpu_g14g'' (\<lambda>a. False))
        [tensor [1, 4, 4, 64] 0, tensor [1, 4, 16, 64] 1, tensor [1, 4, 16, 64] 2]
        (new_array [1, 4, 4, 64] float32) 0x3E000000 True (idle 3) \<noteq> None"
    by (simp add: call_defs eval_defs)
  from C10_vector_mode_ignores_causal [OF h] h n show ?thesis by blast
qed



text \<open>
  C7, as amended. In vector mode, when the query is not donated, the output gets
  storage allocated during the call, laid out by the sequence length of the output
  (its third extent, \<^verbatim>\<open>o.shape(2)\<close>), not by the width of an output row: if that length is 1
  the storage is plain contiguous storage; otherwise the strides of the output are
  changed so that the sequence axis has stride \<open>H * Dv\<close> and the head axis stride \<open>Dv\<close>
  (\<open>H\<close> and \<open>Dv\<close> the second and the fourth extent of the output), the flags are those of
  the query, and the row-contiguous flag is set exactly when the query has a single
  head.
\<close>

theorem C7_fresh_output_layout:
  assumes "eval_gpu ext inputs out sc c st = Some (out', st')"
      and "shape (inputs ! 0) ! 2 \<le> 8"
  shows "\<exists>q. bound_input 0 (issued st st') = Some q
     \<and> (\<not> (is_donatable ext q \<and> array_size q = array_size out
            \<and> (shape q ! 2 = 1 \<or> \<not> row_contiguous (flags q))) \<longrightarrow>
          (\<exists>n. length (mallocs st) \<le> n \<and> n < length (mallocs st')
             \<and> mallocs st' ! n = nbytes ext out
             \<and> (if shape out ! 2 = 1 then out' = set_data out (Buffer n)
                 else out' = set_data_strided out (Buffer n) (array_size out)
                        ((strides out)[2 := shape out ! 1 * shape out ! 3, 1 := shape out ! 3])
                        ((flags q)\<lparr>row_contiguous := (shape q ! 1 = 1)\<rparr>)
                    \<and> strides out' ! 2 = shape out ! 1 * shape out ! 3
                    \<and> strides out' ! 1 = shape out ! 3
                    \<and> (row_contiguous (flags out') \<longleftrightarrow> shape q ! 1 = 1))))"
proof -
  from vector_storage [OF assms(1,2)] obtain q n where
    b: "bound_input 0 (issued st st') = Some q"
    and fresh: "q = inputs ! 0 \<and> length (mallocs st) \<le> n
         \<or> data q = Some (Buffer (length (mallocs st))) \<and> length (mallocs st) < n"
    and out: "if is_donatable ext q \<and> array_size q = array_size out
            \<and> (shape q ! 2 = 1 \<or> \<not> row_contiguous (flags q))
         then out' = copy_shared_buffer out q
         else n < length (mallocs st') \<and> mallocs st' ! n = nbytes ext out
            \<and> (if shape out ! 2 = 1 then out' = set_data out (Buffer n)
                else 2 < length (strides out)
                   \<and> out' = set_data_strided out (Buffer n) (array_size out)
                       ((strides out)[2 := shape out ! 1 * shape out ! 3, 1 := shape out ! 3])
                       ((flags q)\<lparr>row_contiguous := (shape q ! 1 = 1)\<rparr>))"
    by blast
  have le: "length (mallocs st) \<le> n" using fresh by auto
  show ?thesis
  proof (cases "is_donatable ext q \<and> array_size q = array_size out
            \<and> (shape q ! 2 = 1 \<or> \<not> row_contiguous (flags q))")
    case True
    with b show ?thesis by blast
  next
    case False
    with out have n: "n < length (mallocs st')" "mallocs st' ! n = nbytes ext out"
      and lay: "if shape out ! 2 = 1 then out' = set_data out (Buffer n)
                else 2 < length (strides out)
                   \<and> out' = set_data_strided out (Buffer n) (array_size out)
                       ((strides out)[2 := shape out ! 1 * shape out ! 3, 1 := shape out ! 3])
                       ((flags q)\<lparr>row_contiguous := (shape q ! 1 = 1)\<rparr>)"
      by simp_all
    have "if shape out ! 2 = 1 then out' = set_data out (Buffer n)
                 else out' = set_data_strided out (Buffer n) (array_size out)
                        ((strides out)[2 := shape out ! 1 * shape out ! 3, 1 := shape out ! 3])
                        ((flags q)\<lparr>row_contiguous := (shape q ! 1 = 1)\<rparr>)
                    \<and> strides out' ! 2 = shape out ! 1 * shape out ! 3
                    \<and> strides out' ! 1 = shape out ! 3
                    \<and> (row_contiguous (flags out') \<longleftrightarrow> shape q ! 1 = 1)"
      using lay by (auto simp: set_data_strided_def)
    with b le n show ?thesis by blast
  qed
qed

text \<open>
  A query of length 2 with two heads and rows of width 1: the strides of the output
  become 4, 1, 2, 1 and the row-contiguous flag is not set.
\<close>

theorem C7_witness:
  "\<exists>out' st' q.
      eval_gpu (device ''applegpu_g14g'' (\<lambda>a. False))
        [tensor [1, 2, 2, 1] 0, tensor [1, 2, 16, 1] 1, tensor [1, 2, 16, 1] 2]
        (new_array [1, 2, 2, 1] float32) 0x3E000000 False (idle 3) = Some (out', st')
    \<and> bound_input 0 (issued (idle 3) st') = Some q
    \<and> strides out' = [4, 1, 2, 1] \<and> \<not> row_contiguous (flags out')"
  (is "\<exists>out' st' q. ?call = Some (out', st') \<and> _")
proof -
  have "?call \<noteq> None"
    by (simp add: call_defs eval_defs)
  then obtain o1 s1 where e: "?call = Some (o1, s1)"
    by auto
  have l: "shape ([tensor [1, 2, 2, 1] 0, tensor [1, 2, 16, 1] 1, tensor [1, 2, 16, 1] 2] ! 0) ! 2 \<le> 8"
    by simp
  have "bound_input 0 (issued (idle 3) (snd (the ?call))) = Some (tensor [1, 2, 2, 1] 0)"
    by (simp add: call_defs eval_defs issued_def)
  then have b: "bound_input 0 (issued (idle 3) s1) = Some (tensor [1, 2, 2, 1] 0)"
    unfolding e by simp
  from C7_fresh_output_layout [OF e l] obtain q where
    q: "bound_input 0 (issued (idle 3) s1) = Some q"
    and lay: "\<not> (is_donatable (device ''applegpu_g14g'' (\<lambda>a. False)) q
            \<and> array_size q = array_size (new_array [1, 2, 2, 1] float32)
            \<and> (shape q ! 2 = 1 \<or> \<not> row_contiguous (flags q))) \<longrightarrow>
          (\<exists>n. length (mallocs (idle 3)) \<le> n \<and> n < length (mallocs s1)
             \<and> mallocs s1 ! n = nbytes (device ''applegpu_g14g'' (\<lambda>a. False)) (new_array [1, 2, 2, 1] float32)
             \<and> (if shape (new_array [1, 2, 2, 1] float32) ! 2 = 1
                 then o1 = set_data (new_array [1, 2, 2, 1] float32) (Buffer n)
                 else o1 = set_data_strided (new_array [1, 2, 2, 1] float32) (Buffer n)
                        (array_size (new_array [1, 2, 2, 1] float32))
                        ((strides (new_array [1, 2, 2, 1] float32))
                           [2 := shape (new_array [1, 2, 2, 1] float32) ! 1
                                 * shape (new_array [1, 2, 2, 1] float32) ! 3,
                            1 := shape (new_array [1, 2, 2, 1] float32) ! 3])
                        ((flags q)\<lparr>row_contiguous := (shape q ! 1 = 1)\<rparr>)
                    \<and> strides o1 ! 2 = shape (new_array [1, 2, 2, 1] float32) ! 1
                         * shape (new_array [1, 2, 2, 1] float32) ! 3
                    \<and> strides o1 ! 1 = shape (new_array [1, 2, 2, 1] float32) ! 3
                    \<and> (row_contiguous (flags o1) \<longleftrightarrow> shape q ! 1 = 1)))"
    by blast
  from q b have qt: "q = tensor [1, 2, 2, 1] 0" by simp
  have nd: "\<not> is_donatable (device ''applegpu_g14g'' (\<lambda>a. False)) q"
    by (simp add: device_def)
  from lay nd obtain n where
    "o1 = set_data_strided (new_array [1, 2, 2, 1] float32) (Buffer n)
                        (array_size (new_array [1, 2, 2, 1] float32))
                        ((strides (new_array [1, 2, 2, 1] float32))
                           [2 := shape (new_array [1, 2, 2, 1] float32) ! 1
                                 * shape (new_array [1, 2, 2, 1] float32) ! 3,
                            1 := shape (new_array [1, 2, 2, 1] float32) ! 3])
                        ((flags q)\<lparr>row_contiguous := (shape q ! 1 = 1)\<rparr>)"
    by (auto simp: new_array_def)
  then have "strides o1 = [4, 1, 2, 1] \<and> \<not> row_contiguous (flags o1)"
    unfolding qt by (simp add: set_data_strided_def new_array_def)
  with e q show ?thesis by blast
qed

text \<open>
  The claim as stated fails both ways. For rows of width 1 it promises plain
  contiguous storage, but a query of length 2 with two heads gets the strides
  4, 1, 2, 1 (plain storage has 4, 2, 1, 1) and no row-contiguous flag. For rows of width
  64 and two heads it promises the sequence stride \<open>H * Dv = 128\<close> and no row-contiguous
  flag, but a query of length 1 gets plain contiguous storage: sequence stride 64,
  row-contiguous.
\<close>

theorem C7_counterexample:
  "shape (new_array [1, 2, 2, 1] float32) ! 3 = 1
   \<and> strides (fst (the (eval_gpu (device ''applegpu_g14g'' (\<lambda>a. False))
        [tensor [1, 2, 2, 1] 0, tensor [1, 2, 16, 1] 1, tensor [1, 2, 16, 1] 2]
        (new_array [1, 2, 2, 1] float32) 0x3E000000 False (idle 3)))) = [4, 1, 2, 1]
   \<and> fst (the (eval_gpu (device ''applegpu_g14g'' (\<lambda>a. False))
        [tensor [1, 2, 2, 1] 0, tensor [1, 2, 16, 1] 1, tensor [1, 2, 16, 1] 2]
        (new_array [1, 2, 2, 1] float32) 0x3E000000 False (idle 3)))
       \<noteq> set_data (new_array [1, 2, 2, 1] float32) (Buffer 3)
   \<and> shape (new_array [1, 2, 1, 64] float32) ! 3 = 64
   \<and> shape (tensor [1, 2, 1, 64] 0) ! 1 = 2
   \<and> fst (the (eval_gpu (device ''applegpu_g14g'' (\<lambda>a. False))
        [tensor [1, 2, 1, 64] 0, tensor [1, 2, 16, 64] 1, tensor [1, 2, 16, 64] 2]
        (new_array [1, 2, 1, 64] float32) 0x3E000000 False (idle 3)))
       = set_data (new_array [1, 2, 1, 64] float32) (Buffer 3)
   \<and> strides (set_data (new_array [1, 2, 1, 64] float32) (Buffer 3)) = [128, 64, 64, 1]
   \<and> row_contiguous (flags (set_data (new_array [1, 2, 1, 64] float32) (Buffer 3)))"
  by (simp add: call_defs eval_defs)

lemma mask_stride_broadcast:
  assumes "mask_stride m i = Some s" and "0 < i"
  shows "s = to_int32_t (broadcast_stride m i)"
  using mask_stride_Some [OF assms] by (simp add: broadcast_stride_def to_int32_t_def)

text \<open>
  C5, as amended. When a mask is bound to one of the two vector kernels, the stride
  passed for each of its three trailing axes (key, query, head) is the stride of the
  mask for that axis, converted to \<^verbatim>\<open>int32_t\<close>, if the mask has the axis and its extent
  exceeds 1, and 0 otherwise. When a mask is bound to the full attention kernel, the
  three strides passed are the strides of the first three axes of the mask (batch,
  head, query) as they are, whatever the extents.
\<close>

theorem C5_mask_strides:
  "(sdpa_vector ext q k v out sc (Some m) st = Some st1 \<longrightarrow>
       bound_input 11 (issued st st1) = Some m
     \<and> bound_bytes 12 (issued st st1) = Some (bytes_int32_t (to_int32_t (broadcast_stride m 1)))
     \<and> bound_bytes 13 (issued st st1) = Some (bytes_int32_t (to_int32_t (broadcast_stride m 2)))
     \<and> bound_bytes 14 (issued st st1) = Some (bytes_int32_t (to_int32_t (broadcast_stride m 3))))
   \<and> (sdpa_vector_2pass ext q k v out sc (Some m) st = Some st2 \<longrightarrow>
       bound_input 13 (issued st st2) = Some m
     \<and> bound_bytes 14 (issued st st2) = Some (bytes_int32_t (to_int32_t (broadcast_stride m 1)))
     \<and> bound_bytes 15 (issued st st2) = Some (bytes_int32_t (to_int32_t (broadcast_stride m 2)))
     \<and> bound_bytes 16 (issued st st2) = Some (bytes_int32_t (to_int32_t (broadcast_stride m 3))))
   \<and> (sdpa_full_self_attention_metal ext q k v sc out c (Some m) st = Some st3 \<longrightarrow>
       bound_input 6 (issued st st3) = Some m
     \<and> bound_bytes 5 (issued st st3)
         = Some (bytes_AttnMaskParams \<lparr>M_strides = [strides m ! 0, strides m ! 1, strides m ! 2]\<rparr>))"
proof (intro conjI impI)
  assume a: "sdpa_vector ext q k v out sc (Some m) st = Some st1"
  from vector_mask [OF a] obtain s1 s2 s3 where
    s: "mask_stride m 1 = Some s1" "mask_stride m 2 = Some s2" "mask_stride m 3 = Some s3"
    and b: "bound_input 11 (issued st st1) = Some m"
      "bound_bytes 12 (issued st st1) = Some (bytes_int32_t s1)"
      "bound_bytes 13 (issued st st1) = Some (bytes_int32_t s2)"
      "bound_bytes 14 (issued st st1) = Some (bytes_int32_t s3)"
    by blast
  from b(1) show "bound_input 11 (issued st st1) = Some m" .
  from b(2) mask_stride_broadcast [OF s(1)]
  show "bound_bytes 12 (issued st st1) = Some (bytes_int32_t (to_int32_t (broadcast_stride m 1)))"
    by simp
  from b(3) mask_stride_broadcast [OF s(2)]
  show "bound_bytes 13 (issued st st1) = Some (bytes_int32_t (to_int32_t (broadcast_stride m 2)))"
    by simp
  from b(4) mask_stride_broadcast [OF s(3)]
  show "bound_bytes 14 (issued st st1) = Some (bytes_int32_t (to_int32_t (broadcast_stride m 3)))"
    by simp
next
  assume a: "sdpa_vector_2pass ext q k v out sc (Some m) st = Some st2"
  from vector_2pass_mask [OF a] obtain s1 s2 s3 where
    s: "mask_stride m 1 = Some s1" "mask_stride m 2 = Some s2" "mask_stride m 3 = Some s3"
    and b: "bound_input 13 (issued st st2) = Some m"
      "bound_bytes 14 (issued st st2) = Some (bytes_int32_t s1)"
      "bound_bytes 15 (issued st st2) = Some (bytes_int32_t s2)"
      "bound_bytes 16 (issued st st2) = Some (bytes_int32_t s3)"
    by blast
  from b(1) show "bound_input 13 (issued st st2) = Some m" .
  from b(2) mask_stride_broadcast [OF s(1)]
  show "bound_bytes 14 (issued st st2) = Some (bytes_int32_t (to_int32_t (broadcast_stride m 1)))"
    by simp
  from b(3) mask_stride_broadcast [OF s(2)]
  show "bound_bytes 15 (issued st st2) = Some (bytes_int32_t (to_int32_t (broadcast_stride m 2)))"
    by simp
  from b(4) mask_stride_broadcast [OF s(3)]
  show "bound_bytes 16 (issued st st2) = Some (bytes_int32_t (to_int32_t (broadcast_stride m 3)))"
    by simp
next
  assume a: "sdpa_full_self_attention_metal ext q k v sc out c (Some m) st = Some st3"
  from full_mask [OF a] show "bound_input 6 (issued st st3) = Some m" by simp
  from full_mask [OF a] show "bound_bytes 5 (issued st st3)
         = Some (bytes_AttnMaskParams \<lparr>M_strides = [strides m ! 0, strides m ! 1, strides m ! 2]\<rparr>)"
    by simp
qed

text \<open>
  A mask of shape 1, 4, 1, 16 (strides 64, 16, 16, 1) on the two vector kernels: key
  stride 1, query stride 0 (extent 1), head stride 16. A mask of shape 1, 4, 9, 16
  (strides 576, 144, 16, 1) on the full kernel: 576, 144, 16.
\<close>

theorem C5_witness:
  "\<exists>st1 st2 st3.
      sdpa_vector (device ''applegpu_g14g'' (\<lambda>a. False))
        (tensor [1, 4, 1, 64] 0) (tensor [1, 4, 16, 64] 1) (tensor [1, 4, 16, 64] 2)
        (tensor [1, 4, 1, 64] 4) 0x3E000000 (Some (tensor [1, 4, 1, 16] 3)) (idle 5) = Some st1
    \<and> bound_bytes 12 (issued (idle 5) st1) = Some (bytes_int32_t 1)
    \<and> bound_bytes 13 (issued (idle 5) st1) = Some (bytes_int32_t 0)
    \<and> bound_bytes 14 (issued (idle 5) st1) = Some (bytes_int32_t 16)
    \<and> sdpa_vector_2pass (device ''applegpu_g14g'' (\<lambda>a. False))
        (tensor [1, 4, 1, 64] 0) (tensor [1, 4, 16, 64] 1) (tensor [1, 4, 16, 64] 2)
        (tensor [1, 4, 1, 64] 4) 0x3E000000 (Some (tensor [1, 4, 1, 16] 3)) (idle 5) = Some st2
    \<and> bound_bytes 14 (issued (idle 5) st2) = Some (bytes_int32_t 1)
    \<and> bound_bytes 15 (issued (idle 5) st2) = Some (bytes_int32_t 0)
    \<and> bound_bytes 16 (issued (idle 5) st2) = Some (bytes_int32_t 16)
    \<and> sdpa_full_self_attention_metal (device ''applegpu_g14g'' (\<lambda>a. False))
        (tensor [1, 4, 9, 64] 0) (tensor [1, 4, 16, 64] 1) (tensor [1, 4, 16, 64] 2)
        0x3E000000 (tensor [1, 4, 9, 64] 4) False (Some (tensor [1, 4, 9, 16] 3)) (idle 5) = Some st3
    \<and> bound_bytes 5 (issued (idle 5) st3)
         = Some (bytes_AttnMaskParams \<lparr>M_strides = [576, 144, 16]\<rparr>)"
proof -
  have "sdpa_vector (device ''applegpu_g14g'' (\<lambda>a. False))
        (tensor [1, 4, 1, 64] 0) (tensor [1, 4, 16, 64] 1) (tensor [1, 4, 16, 64] 2)
        (tensor [1, 4, 1, 64] 4) 0x3E000000 (Some (tensor [1, 4, 1, 16] 3)) (idle 5) \<noteq> None"
    by (simp add: call_defs eval_defs)
  then obtain st1 where e1: "sdpa_vector (device ''applegpu_g14g'' (\<lambda>a. False))
        (tensor [1, 4, 1, 64] 0) (tensor [1, 4, 16, 64] 1) (tensor [1, 4, 16, 64] 2)
        (tensor [1, 4, 1, 64] 4) 0x3E000000 (Some (tensor [1, 4, 1, 16] 3)) (idle 5) = Some st1"
    by blast
  have "sdpa_vector_2pass (device ''applegpu_g14g'' (\<lambda>a. False))
        (tensor [1, 4, 1, 64] 0) (tensor [1, 4, 16, 64] 1) (tensor [1, 4, 16, 64] 2)
        (tensor [1, 4, 1, 64] 4) 0x3E000000 (Some (tensor [1, 4, 1, 16] 3)) (idle 5) \<noteq> None"
    by (simp add: call_defs eval_defs)
  then obtain st2 where e2: "sdpa_vector_2pass (device ''applegpu_g14g'' (\<lambda>a. False))
        (tensor [1, 4, 1, 64] 0) (tensor [1, 4, 16, 64] 1) (tensor [1, 4, 16, 64] 2)
        (tensor [1, 4, 1, 64] 4) 0x3E000000 (Some (tensor [1, 4, 1, 16] 3)) (idle 5) = Some st2"
    by blast
  have "sdpa_full_self_attention_metal (device ''applegpu_g14g'' (\<lambda>a. False))
        (tensor [1, 4, 9, 64] 0) (tensor [1, 4, 16, 64] 1) (tensor [1, 4, 16, 64] 2)
        0x3E000000 (tensor [1, 4, 9, 64] 4) False (Some (tensor [1, 4, 9, 16] 3)) (idle 5) \<noteq> None"
    by (simp add: call_defs eval_defs)
  then obtain st3 where e3: "sdpa_full_self_attention_metal (device ''applegpu_g14g'' (\<lambda>a. False))
        (tensor [1, 4, 9, 64] 0) (tensor [1, 4, 16, 64] 1) (tensor [1, 4, 16, 64] 2)
        0x3E000000 (tensor [1, 4, 9, 64] 4) False (Some (tensor [1, 4, 9, 16] 3)) (idle 5) = Some st3"
    by blast
  have bs: "broadcast_stride (tensor [1, 4, 1, 16] 3) (Suc 0) = 1"
    "broadcast_stride (tensor [1, 4, 1, 16] 3) 2 = 0"
    "broadcast_stride (tensor [1, 4, 1, 16] 3) 3 = 16"
    "to_int32_t 1 = 1" "to_int32_t 0 = 0" "to_int32_t 16 = 16"
    by (simp_all add: broadcast_stride_def ndim_def tensor_def new_array_def set_data_def
        to_int32_t_def)
  have ms: "strides (tensor [1, 4, 9, 16] 3) = [576, 144, 16, 1]"
    by (simp add: tensor_def new_array_def set_data_def)
  from C5_mask_strides [of "device ''applegpu_g14g'' (\<lambda>a. False)"
      "tensor [1, 4, 1, 64] 0" "tensor [1, 4, 16, 64] 1" "tensor [1, 4, 16, 64] 2"
      "tensor [1, 4, 1, 64] 4" "0x3E000000" "tensor [1, 4, 1, 16] 3" "idle 5" st1 st2] e1 e2
  have v: "bound_bytes 12 (issued (idle 5) st1) = Some (bytes_int32_t 1)
    \<and> bound_bytes 13 (issued (idle 5) st1) = Some (bytes_int32_t 0)
    \<and> bound_bytes 14 (issued (idle 5) st1) = Some (bytes_int32_t 16)
    \<and> bound_bytes 14 (issued (idle 5) st2) = Some (bytes_int32_t 1)
    \<and> bound_bytes 15 (issued (idle 5) st2) = Some (bytes_int32_t 0)
    \<and> bound_bytes 16 (issued (idle 5) st2) = Some (bytes_int32_t 16)"
    by (simp add: bs)
  from C5_mask_strides [of "device ''applegpu_g14g'' (\<lambda>a. False)"
      "tensor [1, 4, 9, 64] 0" "tensor [1, 4, 16, 64] 1" "tensor [1, 4, 16, 64] 2"
      "tensor [1, 4, 9, 64] 4" "0x3E000000" "tensor [1, 4, 9, 16] 3" "idle 5" _ _ False st3] e3
  have f: "bound_bytes 5 (issued (idle 5) st3)
         = Some (bytes_AttnMaskParams \<lparr>M_strides = [576, 144, 16]\<rparr>)"
    by (simp add: ms)
  from e1 e2 e3 v f show ?thesis by blast
qed

text \<open>
  The claim as stated fails in full mode. A row-major mask of shape 1, 1, 9, 16 (a single
  head) has a head axis of extent 1, for which the claim promises the stride 0; the call
  passes the strides 144, 144, 16 of the batch, head and query axes.
\<close>

theorem C5_counterexample:
  "shape (tensor [1, 1, 9, 16] 3) ! 1 = 1
   \<and> eval_gpu (device ''applegpu_g14g'' (\<lambda>a. False))
        [tensor [1, 1, 9, 64] 0, tensor [1, 1, 16, 64] 1, tensor [1, 1, 16, 64] 2,
         tensor [1, 1, 9, 16] 3]
        (new_array [1, 1, 9, 64] float32) 0x3E000000 False (idle 4) \<noteq> None
   \<and> bound_input 6 (issued (idle 4) (snd (the
       (eval_gpu (device ''applegpu_g14g'' (\<lambda>a. False))
        [tensor [1, 1, 9, 64] 0, tensor [1, 1, 16, 64] 1, tensor [1, 1, 16, 64] 2,
         tensor [1, 1, 9, 16] 3]
        (new_array [1, 1, 9, 64] float32) 0x3E000000 False (idle 4)))))
       = Some (tensor [1, 1, 9, 16] 3)
   \<and> bound_bytes 5 (issued (idle 4) (snd (the
       (eval_gpu (device ''applegpu_g14g'' (\<lambda>a. False))
        [tensor [1, 1, 9, 64] 0, tensor [1, 1, 16, 64] 1, tensor [1, 1, 16, 64] 2,
         tensor [1, 1, 9, 16] 3]
        (new_array [1, 1, 9, 64] float32) 0x3E000000 False (idle 4)))))
       = Some (bytes_AttnMaskParams \<lparr>M_strides = [144, 144, 16]\<rparr>)"
  by (simp add: call_defs eval_defs issued_def)

end
